theory Spec2Isabelle
  imports Complex_Main "HOL-Library.Multiset"
begin

section \<open>Data model\<close>

text \<open>
  One row of \<^verbatim>\<open>claims_schema\<close> (src/glue/dqad_etl_job.py). Every column but
  \<^verbatim>\<open>claim_id\<close> is nullable: \<open>None\<close> is SQL NULL in the Spark job and NaN/NaT in the
  pandas reference (src/data/test_dq_validation.py). A date is a day number; a date the
  reader could not parse arrives as \<open>None\<close> (the CSV reader of the job yields NULL, and
  \<^verbatim>\<open>pd.to_datetime(errors='coerce')\<close> yields NaT). Amounts are doubles in the source
  and exact reals here: rounding is not modelled. A \<open>char\<close> stands for one code point
  below 256. The ingestion columns \<^verbatim>\<open>ingestion_timestamp\<close> and \<^verbatim>\<open>source_file\<close> are
  constant per batch and left out.
\<close>

record claim =
  claim_id :: string
  member_id :: "string option"
  provider_id :: "string option"
  provider_npi :: "string option"
  cpt_code :: "string option"
  icd10_code :: "string option"
  claim_amount :: "real option"
  service_date :: "int option"
  submission_date :: "int option"
  claim_status :: "string option"
  denial_reason :: "string option"
  patient_dob :: "int option"
  patient_zip :: "string option"
  patient_gender :: "string option"

text \<open>The entries of \<^verbatim>\<open>DQ_THRESHOLDS\<close> that the code reads.\<close>

definition min_claim_amount :: real where
  "min_claim_amount = 0"

definition max_claim_amount :: real where
  "max_claim_amount = 100000"

definition npi_length :: nat where
  "npi_length = 10"

definition max_days_to_submission :: int where
  "max_days_to_submission = 365"

definition valid_statuses :: "string list" where
  "valid_statuses = [''PAID'', ''DENIED'', ''PENDING'']"

definition valid_genders :: "string list" where
  "valid_genders = [''M'', ''F'', ''U'']"

section \<open>Spark column expressions\<close>

text \<open>
  A Spark boolean column is three-valued; \<open>None\<close> is NULL. \<^verbatim>\<open>isNull\<close> never yields NULL,
  \<^verbatim>\<open>~\<close>, \<^verbatim>\<open>&\<close> and \<^verbatim>\<open>|\<close> follow Kleene's tables, a comparison or arithmetic
  operation with a NULL operand is NULL, and \<^verbatim>\<open>isin\<close> of NULL is NULL.
\<close>

definition isNull :: "'a option \<Rightarrow> bool option" where
  "isNull v = Some (v = None)"

fun sql_not :: "bool option \<Rightarrow> bool option" where
  "sql_not None = None"
| "sql_not (Some b) = Some (\<not> b)"

definition sql_and :: "bool option \<Rightarrow> bool option \<Rightarrow> bool option" where
  "sql_and a b =
     (if a = Some False \<or> b = Some False then Some False
      else if a = Some True \<and> b = Some True then Some True
      else None)"

definition sql_or :: "bool option \<Rightarrow> bool option \<Rightarrow> bool option" where
  "sql_or a b =
     (if a = Some True \<or> b = Some True then Some True
      else if a = Some False \<and> b = Some False then Some False
      else None)"

definition sql_binop :: "('a \<Rightarrow> 'b \<Rightarrow> 'c) \<Rightarrow> 'a option \<Rightarrow> 'b option \<Rightarrow> 'c option" where
  "sql_binop f a b =
     (case a of None \<Rightarrow> None
      | Some x \<Rightarrow> (case b of None \<Rightarrow> None | Some y \<Rightarrow> Some (f x y)))"

definition sql_eq :: "'a option \<Rightarrow> 'a option \<Rightarrow> bool option" where
  "sql_eq = sql_binop (\<lambda>x y. x = y)"

definition sql_lt :: "'a::linorder option \<Rightarrow> 'a option \<Rightarrow> bool option" where
  "sql_lt = sql_binop (\<lambda>x y. x < y)"

definition sql_gt :: "'a::linorder option \<Rightarrow> 'a option \<Rightarrow> bool option" where
  "sql_gt = sql_binop (\<lambda>x y. x > y)"

definition sql_minus :: "real option \<Rightarrow> real option \<Rightarrow> real option" where
  "sql_minus = sql_binop (\<lambda>x y. x - y)"

text \<open>Spark's \<^verbatim>\<open>/\<close> yields NULL for a zero divisor.\<close>

definition sql_divide :: "real option \<Rightarrow> real option \<Rightarrow> real option" where
  "sql_divide a b =
     (case a of None \<Rightarrow> None
      | Some x \<Rightarrow> (case b of None \<Rightarrow> None
                    | Some y \<Rightarrow> if y = 0 then None else Some (x / y)))"

definition sql_abs :: "real option \<Rightarrow> real option" where
  "sql_abs = map_option abs"

definition sql_length :: "string option \<Rightarrow> nat option" where
  "sql_length = map_option length"

definition datediff :: "int option \<Rightarrow> int option \<Rightarrow> int option" where
  "datediff = sql_binop (\<lambda>e s. e - s)"

definition isin :: "'a option \<Rightarrow> 'a list \<Rightarrow> bool option" where
  "isin v xs = map_option (\<lambda>x. x \<in> set xs) v"

text \<open>
  \<^verbatim>\<open>when(c1, v1).when(c2, v2)....otherwise(d)\<close>: the value of the first branch whose
  condition is true; a NULL condition does not select its branch.
\<close>

fun when_otherwise :: "(bool option \<times> 'a) list \<Rightarrow> 'a \<Rightarrow> 'a" where
  "when_otherwise [] d = d"
| "when_otherwise ((c, v) # bs) d = (if c = Some True then v else when_otherwise bs d)"

subsection \<open>The two regular expressions\<close>

definition is_digit :: "char \<Rightarrow> bool" where
  "is_digit ch = (ch \<in> set ''0123456789'')"

text \<open>
  \<^verbatim>\<open>rlike\<close> searches with \<^verbatim>\<open>java.util.regex\<close>, where \<^verbatim>\<open>$\<close> holds at the end of the
  input and also before one final line terminator.
\<close>

definition java_dollar :: "string \<Rightarrow> bool" where
  "java_dollar rest =
     (rest = [] \<or> rest = [CHR 0x0A] \<or> rest = [CHR 0x0D] \<or> rest = [CHR 0x0D, CHR 0x0A]
      \<or> rest = [CHR 0x85])"

text \<open>\<^verbatim>\<open>^[0-9]{10}$\<close>\<close>

definition rlike_npi :: "string \<Rightarrow> bool" where
  "rlike_npi s =
     (10 \<le> length s \<and> list_all is_digit (take 10 s) \<and> java_dollar (drop 10 s))"

text \<open>\<^verbatim>\<open>^[0-9]{5}(-[0-9]{4})?$\<close>\<close>

definition rlike_zip :: "string \<Rightarrow> bool" where
  "rlike_zip s =
     (5 \<le> length s \<and> list_all is_digit (take 5 s) \<and>
      (java_dollar (drop 5 s) \<or>
       (10 \<le> length s \<and> take 1 (drop 5 s) = ''-'' \<and> list_all is_digit (take 4 (drop 6 s))
        \<and> java_dollar (drop 10 s))))"

text \<open>
  \<^verbatim>\<open>str.match(r'^\d{10}$')\<close> of the pandas reference: Python's \<^verbatim>\<open>$\<close> holds at the
  end and before one final newline.
\<close>

definition py_dollar :: "string \<Rightarrow> bool" where
  "py_dollar rest = (rest = [] \<or> rest = [CHR 0x0A])"

definition py_match_npi :: "string \<Rightarrow> bool" where
  "py_match_npi s =
     (10 \<le> length s \<and> list_all is_digit (take 10 s) \<and> py_dollar (drop 10 s))"

section \<open>Rule Validator of the Glue job\<close>

text \<open>
  \<^verbatim>\<open>validate_data_quality\<close> of src/glue/dqad_etl_job.py. Each \<^verbatim>\<open>withColumn\<close> rewrites
  the column \<^verbatim>\<open>dq_issues\<close> of every row from that row alone; the functions below take
  the row and the current value of the column and give the new value. The column starts
  as the empty string and is never NULL.
\<close>

definition null_checks :: "claim \<Rightarrow> string \<Rightarrow> string" where
  "null_checks c dq =
     when_otherwise
       [(isNull (member_id c), dq @ ''MISSING_MEMBER_ID;''),
        (isNull (provider_npi c), dq @ ''MISSING_NPI;''),
        (isNull (cpt_code c), dq @ ''MISSING_CPT;''),
        (sql_or (isNull (icd10_code c)) (sql_eq (icd10_code c) (Some [])),
           dq @ ''MISSING_DIAGNOSIS;''),
        (isNull (claim_amount c), dq @ ''MISSING_AMOUNT;'')]
       dq"

definition npi_valid :: "claim \<Rightarrow> bool option" where
  "npi_valid c =
     sql_and (sql_eq (sql_length (provider_npi c)) (Some npi_length))
             (map_option rlike_npi (provider_npi c))"

definition npi_check :: "claim \<Rightarrow> string \<Rightarrow> string" where
  "npi_check c dq =
     when_otherwise [(sql_not (npi_valid c), dq @ ''INVALID_NPI;'')] dq"

definition amount_checks :: "claim \<Rightarrow> string \<Rightarrow> string" where
  "amount_checks c dq =
     when_otherwise
       [(sql_lt (claim_amount c) (Some min_claim_amount), dq @ ''NEGATIVE_AMOUNT;''),
        (sql_gt (claim_amount c) (Some max_claim_amount), dq @ ''EXCESSIVE_AMOUNT;'')]
       dq"

definition date_checks :: "int \<Rightarrow> claim \<Rightarrow> string \<Rightarrow> string" where
  "date_checks current_date c dq =
     when_otherwise
       [(sql_gt (service_date c) (Some current_date), dq @ ''FUTURE_SERVICE_DATE;''),
        (sql_gt (datediff (submission_date c) (service_date c)) (Some max_days_to_submission),
           dq @ ''LATE_SUBMISSION;''),
        (sql_lt (submission_date c) (service_date c), dq @ ''SUBMISSION_BEFORE_SERVICE;'')]
       dq"

definition status_check :: "claim \<Rightarrow> string \<Rightarrow> string" where
  "status_check c dq =
     when_otherwise
       [(sql_not (isin (claim_status c) valid_statuses), dq @ ''INVALID_STATUS;'')] dq"

definition gender_check :: "claim \<Rightarrow> string \<Rightarrow> string" where
  "gender_check c dq =
     when_otherwise
       [(sql_not (isin (patient_gender c) valid_genders), dq @ ''INVALID_GENDER;'')] dq"

definition zip_check :: "claim \<Rightarrow> string \<Rightarrow> string" where
  "zip_check c dq =
     when_otherwise
       [(sql_not (map_option rlike_zip (patient_zip c)), dq @ ''INVALID_ZIP;'')] dq"

text \<open>The value of \<^verbatim>\<open>dq_issues\<close> of a row after the seven steps, in the source's order.\<close>

definition dq_issues :: "int \<Rightarrow> claim \<Rightarrow> string" where
  "dq_issues current_date c =
     zip_check c (gender_check c (status_check c (date_checks current_date c
       (amount_checks c (npi_check c (null_checks c []))))))"

text \<open>
  The frame \<^verbatim>\<open>dq_df\<close> pairs every row with its \<^verbatim>\<open>dq_issues\<close>. The column
  \<^verbatim>\<open>has_dq_issues\<close> is \<^verbatim>\<open>length(dq_issues) > 0\<close>, never NULL; \<^verbatim>\<open>clean_df\<close>
  keeps the rows where it is false and drops the added columns, \<^verbatim>\<open>dq_failures_df\<close>
  keeps the rows where it is true.
\<close>

definition dq_df :: "int \<Rightarrow> claim list \<Rightarrow> (claim \<times> string) list" where
  "dq_df current_date df = map (\<lambda>c. (c, dq_issues current_date c)) df"

definition validate_data_quality ::
  "int \<Rightarrow> claim list \<Rightarrow> claim list \<times> (claim \<times> string) list" where
  "validate_data_quality current_date df =
     (let rows = dq_df current_date df;
          clean_df = map fst (filter (\<lambda>r. \<not> (length (snd r) > 0)) rows);
          dq_failures_df = filter (\<lambda>r. length (snd r) > 0) rows
      in (clean_df, dq_failures_df))"

section \<open>Rule Validator of the pandas reference\<close>

text \<open>
  \<^verbatim>\<open>validate_data_quality\<close> of src/data/test_dq_validation.py. Every statement
  \<^verbatim>\<open>df.loc[mask, 'dq_issues'] += code\<close> appends the code to the rows where the mask is
  true. A comparison with NaN or NaT is false, \<^verbatim>\<open>isna\<close> is true exactly on them, and
  \<^verbatim>\<open>isin\<close> is false on them. \<^verbatim>\<open>astype(str)\<close> turns NaN into the text \<^verbatim>\<open>nan\<close>.
\<close>

definition loc_append :: "bool \<Rightarrow> string \<Rightarrow> string \<Rightarrow> string" where
  "loc_append cond code dq = (if cond then dq @ code else dq)"

definition isna :: "'a option \<Rightarrow> bool" where
  "isna v = (v = None)"

definition pd_lt :: "'a::linorder option \<Rightarrow> 'a option \<Rightarrow> bool" where
  "pd_lt a b = (case a of None \<Rightarrow> False
                | Some x \<Rightarrow> (case b of None \<Rightarrow> False | Some y \<Rightarrow> x < y))"

definition pd_gt :: "'a::linorder option \<Rightarrow> 'a option \<Rightarrow> bool" where
  "pd_gt a b = (case a of None \<Rightarrow> False
                | Some x \<Rightarrow> (case b of None \<Rightarrow> False | Some y \<Rightarrow> x > y))"

definition pd_isin :: "'a option \<Rightarrow> 'a list \<Rightarrow> bool" where
  "pd_isin v xs = (case v of None \<Rightarrow> False | Some x \<Rightarrow> x \<in> set xs)"

definition astype_str :: "string option \<Rightarrow> string" where
  "astype_str v = (case v of None \<Rightarrow> ''nan'' | Some s \<Rightarrow> s)"

definition npi_valid_pd :: "claim \<Rightarrow> bool" where
  "npi_valid_pd c = py_match_npi (astype_str (provider_npi c))"

definition days_to_submission :: "claim \<Rightarrow> int option" where
  "days_to_submission c = sql_binop (\<lambda>e s. e - s) (submission_date c) (service_date c)"

definition dq_issues_pd :: "int \<Rightarrow> claim \<Rightarrow> string" where
  "dq_issues_pd current_date c =
     (let dq = [];
          dq = loc_append (isna (member_id c)) ''MISSING_MEMBER_ID;'' dq;
          dq = loc_append (isna (provider_npi c)) ''MISSING_NPI;'' dq;
          dq = loc_append (isna (cpt_code c)) ''MISSING_CPT;'' dq;
          dq = loc_append (isna (icd10_code c) \<or> icd10_code c = Some [])
                 ''MISSING_DIAGNOSIS;'' dq;
          dq = loc_append (isna (claim_amount c)) ''MISSING_AMOUNT;'' dq;
          dq = loc_append (\<not> npi_valid_pd c) ''INVALID_NPI;'' dq;
          dq = loc_append (pd_lt (claim_amount c) (Some min_claim_amount))
                 ''NEGATIVE_AMOUNT;'' dq;
          dq = loc_append (pd_gt (claim_amount c) (Some max_claim_amount))
                 ''EXCESSIVE_AMOUNT;'' dq;
          dq = loc_append (pd_gt (service_date c) (Some current_date))
                 ''FUTURE_SERVICE_DATE;'' dq;
          dq = loc_append (pd_gt (days_to_submission c) (Some max_days_to_submission))
                 ''LATE_SUBMISSION;'' dq;
          dq = loc_append (pd_lt (submission_date c) (service_date c))
                 ''SUBMISSION_BEFORE_SERVICE;'' dq;
          dq = loc_append (\<not> pd_isin (claim_status c) valid_statuses) ''INVALID_STATUS;'' dq;
          dq = loc_append (\<not> pd_isin (patient_gender c) valid_genders) ''INVALID_GENDER;'' dq
      in dq)"

definition validate_data_quality_pd ::
  "int \<Rightarrow> claim list \<Rightarrow> claim list \<times> (claim \<times> string) list" where
  "validate_data_quality_pd current_date df =
     (let rows = map (\<lambda>c. (c, dq_issues_pd current_date c)) df;
          clean_df = map fst (filter (\<lambda>r. \<not> (length (snd r) > 0)) rows);
          anomalies_df = filter (\<lambda>r. length (snd r) > 0) rows
      in (clean_df, anomalies_df))"

section \<open>Reading the issue column\<close>

text \<open>
  The column is read back as the reference does in its report
  (\<^verbatim>\<open>for issue in issues.split(';'): if issue: ...\<close>): split at every semicolon, empty
  pieces dropped.
\<close>

fun split_on :: "char \<Rightarrow> string \<Rightarrow> string list" where
  "split_on d [] = [[]]"
| "split_on d (ch # cs) =
     (if ch = d then [] # split_on d cs
      else (case split_on d cs of [] \<Rightarrow> [[ch]] | w # ws \<Rightarrow> (ch # w) # ws))"

definition issue_list :: "string \<Rightarrow> string list" where
  "issue_list s = filter (\<lambda>w. w \<noteq> []) (split_on (CHR '';'') s)"

section \<open>Statistical Outlier Detector of the Glue job\<close>

text \<open>
  Spark's \<^verbatim>\<open>avg\<close> and \<^verbatim>\<open>stddev\<close> (the sample standard deviation) skip NULL values;
  \<^verbatim>\<open>avg\<close> of no value and \<^verbatim>\<open>stddev\<close> of fewer than two values are NULL (so since
  Spark 3.1; the pandas \<^verbatim>\<open>std\<close> gives NaN there, which fails the same comparison).
\<close>

fun non_null :: "'a option list \<Rightarrow> 'a list" where
  "non_null [] = []"
| "non_null (None # vs) = non_null vs"
| "non_null (Some x # vs) = x # non_null vs"

definition mean :: "real list \<Rightarrow> real" where
  "mean xs = sum_list xs / real (length xs)"

definition sample_stddev :: "real list \<Rightarrow> real" where
  "sample_stddev xs =
     sqrt (sum_list (map (\<lambda>x. (x - mean xs)\<^sup>2) xs) / real (length xs - 1))"

definition sql_avg :: "real option list \<Rightarrow> real option" where
  "sql_avg vs = (let xs = non_null vs in if xs = [] then None else Some (mean xs))"

definition sql_stddev :: "real option list \<Rightarrow> real option" where
  "sql_stddev vs =
     (let xs = non_null vs in if length xs < 2 then None else Some (sample_stddev xs))"

text \<open>One row of \<^verbatim>\<open>stats_df\<close>.\<close>

record cpt_stats =
  stats_cpt_code :: "string option"
  stats_avg_amount :: "real option"
  stats_stddev_amount :: "real option"
  stats_count :: nat

text \<open>
  \<^verbatim>\<open>df.groupBy("cpt_code").agg(...)\<close>: one row for each distinct key, NULL being a
  key of its own.
\<close>

definition group_rows :: "claim list \<Rightarrow> string option \<Rightarrow> claim list" where
  "group_rows df k = filter (\<lambda>c. cpt_code c = k) df"

definition agg_group :: "claim list \<Rightarrow> string option \<Rightarrow> cpt_stats" where
  "agg_group df k =
     \<lparr>stats_cpt_code = k,
      stats_avg_amount = sql_avg (map claim_amount (group_rows df k)),
      stats_stddev_amount = sql_stddev (map claim_amount (group_rows df k)),
      stats_count = length (group_rows df k)\<rparr>"

definition stats_df :: "claim list \<Rightarrow> cpt_stats list" where
  "stats_df df = map (agg_group df) (remdups (map cpt_code df))"

text \<open>
  \<^verbatim>\<open>df.join(stats_df, "cpt_code", "left")\<close>: a row is paired with every statistics row
  whose key equals its own (NULL equals nothing), and with NULLs when there is none.
  Spark fixes no row order; the rows are listed in the order of \<open>df\<close>.
\<close>

definition join_left :: "claim list \<Rightarrow> cpt_stats list \<Rightarrow> (claim \<times> cpt_stats option) list" where
  "join_left df st =
     concat (map (\<lambda>c.
        (case filter (\<lambda>s. sql_eq (cpt_code c) (stats_cpt_code s) = Some True) st of
           [] \<Rightarrow> [(c, None)]
         | m # ms \<Rightarrow> map (\<lambda>s. (c, Some s)) (m # ms))) df)"

text \<open>One row of \<^verbatim>\<open>df_with_stats\<close>; \<open>'o\<close> is the type of the outlier flag.\<close>

record 'o scored =
  row_claim :: claim
  avg_amount :: "real option"
  stddev_amount :: "real option"
  count_rows :: "nat option"
  z_score :: "real option"
  is_statistical_outlier :: 'o

definition score_row :: "claim \<times> cpt_stats option \<Rightarrow> bool option scored" where
  "score_row r =
     (let c = fst r;
          avg = Option.bind (snd r) stats_avg_amount;
          sd = Option.bind (snd r) stats_stddev_amount;
          z = when_otherwise
                [(sql_gt sd (Some 0), sql_divide (sql_minus (claim_amount c) avg) sd)]
                (Some 0)
      in \<lparr>row_claim = c, avg_amount = avg, stddev_amount = sd,
          count_rows = map_option stats_count (snd r),
          z_score = z,
          is_statistical_outlier = sql_gt (sql_abs z) (Some 3)\<rparr>)"

definition detect_statistical_anomalies :: "claim list \<Rightarrow> bool option scored list" where
  "detect_statistical_anomalies df = map score_row (join_left df (stats_df df))"

section \<open>Statistical Outlier Detector of the pandas reference\<close>

text \<open>
  \<^verbatim>\<open>groupby('cpt_code')\<close> drops the NaN key; \<^verbatim>\<open>mean\<close>, \<^verbatim>\<open>std\<close> (sample) and
  \<^verbatim>\<open>count\<close> skip NaN amounts. \<^verbatim>\<open>z_score\<close> starts as 0.0 and is overwritten where
  \<^verbatim>\<open>stddev_amount > 0\<close>; a NaN z-score (\<open>None\<close>) is not greater than 3.
\<close>

definition agg_group_pd :: "claim list \<Rightarrow> string option \<Rightarrow> cpt_stats" where
  "agg_group_pd df k =
     \<lparr>stats_cpt_code = k,
      stats_avg_amount = sql_avg (map claim_amount (group_rows df k)),
      stats_stddev_amount = sql_stddev (map claim_amount (group_rows df k)),
      stats_count = length (non_null (map claim_amount (group_rows df k)))\<rparr>"

definition stats_df_pd :: "claim list \<Rightarrow> cpt_stats list" where
  "stats_df_pd df =
     map (agg_group_pd df) (filter (\<lambda>k. k \<noteq> None) (remdups (map cpt_code df)))"

definition merge_left :: "claim list \<Rightarrow> cpt_stats list \<Rightarrow> (claim \<times> cpt_stats option) list" where
  "merge_left df st =
     concat (map (\<lambda>c.
        (case filter (\<lambda>s. cpt_code c = stats_cpt_code s) st of
           [] \<Rightarrow> [(c, None)]
         | m # ms \<Rightarrow> map (\<lambda>s. (c, Some s)) (m # ms))) df)"

text \<open>
  The quotient of two float columns; NaN propagates. The detector takes it only on the
  rows of the mask \<^verbatim>\<open>stddev_amount > 0\<close>; a zero divisor, which would give NaN or an
  infinity, is not reached there and is written \<open>None\<close>.
\<close>

definition pd_divide :: "real option \<Rightarrow> real option \<Rightarrow> real option" where
  "pd_divide a b =
     (case a of None \<Rightarrow> None
      | Some x \<Rightarrow> (case b of None \<Rightarrow> None
                    | Some y \<Rightarrow> if y = 0 then None else Some (x / y)))"

definition score_row_pd :: "claim \<times> cpt_stats option \<Rightarrow> bool scored" where
  "score_row_pd r =
     (let c = fst r;
          avg = Option.bind (snd r) stats_avg_amount;
          sd = Option.bind (snd r) stats_stddev_amount;
          z = (if pd_gt sd (Some 0)
               then pd_divide (sql_minus (claim_amount c) avg) sd
               else Some 0)
      in \<lparr>row_claim = c, avg_amount = avg, stddev_amount = sd,
          count_rows = map_option stats_count (snd r),
          z_score = z,
          is_statistical_outlier = pd_gt (sql_abs z) (Some 3)\<rparr>)"

definition detect_statistical_anomalies_pd :: "claim list \<Rightarrow> bool scored list" where
  "detect_statistical_anomalies_pd df = map score_row_pd (merge_left df (stats_df_pd df))"

section \<open>Metrics Aggregator\<close>

text \<open>
  Python's \<^verbatim>\<open>/\<close> on integers is true division and raises \<^verbatim>\<open>ZeroDivisionError\<close> for a
  zero divisor.
\<close>

datatype error = ZeroDivisionError

definition truediv :: "int \<Rightarrow> int \<Rightarrow> error + real" where
  "truediv a b = (if b = 0 then Inl ZeroDivisionError else Inr (real_of_int a / real_of_int b))"

text \<open>
  The dictionary returned by \<^verbatim>\<open>calculate_dq_metrics\<close> of the Glue job, without its
  \<^verbatim>\<open>timestamp\<close> and \<^verbatim>\<open>source_file\<close> entries. The counts are Python integers.
\<close>

record metrics =
  total_records :: int
  gold_records :: int
  silver_records :: int
  quarantine_records :: int
  total_anomalies :: int
  data_quality_score :: real
  anomaly_rate :: real

definition calculate_dq_metrics :: "int \<Rightarrow> int \<Rightarrow> int \<Rightarrow> int \<Rightarrow> error + metrics" where
  "calculate_dq_metrics raw_count clean_count dq_failure_count outlier_count =
     (let total_anomalies = dq_failure_count + outlier_count;
          gold_count = clean_count - outlier_count
      in case (if raw_count > 0
               then map_sum id (\<lambda>q. q * 100) (truediv gold_count raw_count) else Inr 0) of
           Inl e \<Rightarrow> Inl e
         | Inr score \<Rightarrow>
             (case (if raw_count > 0
                    then map_sum id (\<lambda>q. q * 100) (truediv total_anomalies raw_count)
                    else Inr 0) of
                Inl e \<Rightarrow> Inl e
              | Inr rate \<Rightarrow>
                  Inr \<lparr>total_records = raw_count,
                       gold_records = gold_count,
                       silver_records = dq_failure_count,
                       quarantine_records = outlier_count,
                       total_anomalies = total_anomalies,
                       data_quality_score = score,
                       anomaly_rate = rate\<rparr>))"

text \<open>\<^verbatim>\<open>calculate_dq_metrics\<close> of the pandas reference.\<close>

record metrics_pd =
  raw_records :: int
  clean_records :: int
  anomaly_records :: int
  data_quality_score_pd :: real
  anomaly_rate_pd :: real

definition calculate_dq_metrics_pd :: "int \<Rightarrow> int \<Rightarrow> int \<Rightarrow> error + metrics_pd" where
  "calculate_dq_metrics_pd raw_count clean_count anomaly_count =
     (case (if raw_count > 0
            then map_sum id (\<lambda>q. q * 100) (truediv clean_count raw_count) else Inr 0) of
        Inl e \<Rightarrow> Inl e
      | Inr score \<Rightarrow>
          (case (if raw_count > 0
                 then map_sum id (\<lambda>q. q * 100) (truediv anomaly_count raw_count)
                 else Inr 0) of
             Inl e \<Rightarrow> Inl e
           | Inr rate \<Rightarrow>
               Inr \<lparr>raw_records = raw_count,
                    clean_records = clean_count,
                    anomaly_records = anomaly_count,
                    data_quality_score_pd = score,
                    anomaly_rate_pd = rate\<rparr>))"

section \<open>The job: tiers and metrics of one batch\<close>

text \<open>
  The module-level code of src/glue/dqad_etl_job.py after the batch is read. The gold
  rows are listed without the partition columns \<^verbatim>\<open>year\<close> and \<^verbatim>\<open>month\<close>, the silver
  and quarantine rows before the final \<^verbatim>\<open>select\<close>; neither changes which rows there
  are.
\<close>

definition claims_with_outliers :: "int \<Rightarrow> claim list \<Rightarrow> bool option scored list" where
  "claims_with_outliers current_date df =
     detect_statistical_anomalies (fst (validate_data_quality current_date df))"

definition statistical_outliers :: "int \<Rightarrow> claim list \<Rightarrow> bool option scored list" where
  "statistical_outliers current_date df =
     filter (\<lambda>r. is_statistical_outlier r = Some True) (claims_with_outliers current_date df)"

definition gold_claims :: "int \<Rightarrow> claim list \<Rightarrow> claim list" where
  "gold_claims current_date df =
     map row_claim
       (filter (\<lambda>r. sql_not (is_statistical_outlier r) = Some True)
          (claims_with_outliers current_date df))"

definition silver_claims :: "int \<Rightarrow> claim list \<Rightarrow> (claim \<times> string) list" where
  "silver_claims current_date df = snd (validate_data_quality current_date df)"

definition quarantine_claims :: "int \<Rightarrow> claim list \<Rightarrow> bool option scored list" where
  "quarantine_claims current_date df = statistical_outliers current_date df"

definition dq_metrics :: "int \<Rightarrow> claim list \<Rightarrow> error + metrics" where
  "dq_metrics current_date df =
     (let raw_count = int (length df);
          clean_count = int (length (fst (validate_data_quality current_date df)));
          dq_failure_count = int (length (snd (validate_data_quality current_date df)));
          outlier_count = int (length (statistical_outliers current_date df))
      in calculate_dq_metrics raw_count clean_count dq_failure_count outlier_count)"

text \<open>
  The reference scores the rule-clean rows in its \<^verbatim>\<open>main\<close>:
  \<^verbatim>\<open>clean_with_outliers = detect_statistical_anomalies(clean_df)\<close>.
\<close>

definition clean_with_outliers :: "int \<Rightarrow> claim list \<Rightarrow> bool scored list" where
  "clean_with_outliers current_date df =
     detect_statistical_anomalies_pd (fst (validate_data_quality_pd current_date df))"

section \<open>Auxiliary notions for the statements\<close>

text \<open>An issue column is closed when it is empty or ends in a semicolon.\<close>

definition closed_issues :: "string \<Rightarrow> bool" where
  "closed_issues s = (s = [] \<or> last s = CHR '';'')"

text \<open>The codes of the three chained blocks of the Glue validator.\<close>

definition null_codes :: "string list" where
  "null_codes =
     [''MISSING_MEMBER_ID'', ''MISSING_NPI'', ''MISSING_CPT'', ''MISSING_DIAGNOSIS'',
      ''MISSING_AMOUNT'']"

definition amount_codes :: "string list" where
  "amount_codes = [''NEGATIVE_AMOUNT'', ''EXCESSIVE_AMOUNT'']"

definition date_codes :: "string list" where
  "date_codes = [''FUTURE_SERVICE_DATE'', ''LATE_SUBMISSION'', ''SUBMISSION_BEFORE_SERVICE'']"

text \<open>A record that violates no rule on day 20000, from which the examples are built.\<close>

definition valid_claim :: claim where
  "valid_claim =
     \<lparr>claim_id = ''CLM-0001'', member_id = Some ''MBR-1001'', provider_id = Some ''PRV-2001'',
      provider_npi = Some ''1234567890'', cpt_code = Some ''99213'',
      icd10_code = Some ''E11.9'', claim_amount = Some 300, service_date = Some 19000,
      submission_date = Some 19010, claim_status = Some ''PAID'', denial_reason = None,
      patient_dob = Some 3650, patient_zip = Some ''12345'', patient_gender = Some ''F''\<rparr>"

text \<open>
  The statistics row joined to a claim, and the amounts of the claim's procedure-code
  group (the population of its GroupStatistics).
\<close>

definition stats_for :: "claim list \<Rightarrow> claim \<Rightarrow> cpt_stats option" where
  "stats_for df c = map_option (\<lambda>k. agg_group df (Some k)) (cpt_code c)"

definition stats_for_pd :: "claim list \<Rightarrow> claim \<Rightarrow> cpt_stats option" where
  "stats_for_pd df c = map_option (\<lambda>k. agg_group_pd df (Some k)) (cpt_code c)"

definition group_amounts :: "claim list \<Rightarrow> claim \<Rightarrow> real list" where
  "group_amounts df c = non_null (map claim_amount (group_rows df (cpt_code c)))"

text \<open>Valid records that differ in identifier and amount, and two small batches.\<close>

definition claim_with_amount :: "string \<Rightarrow> real \<Rightarrow> claim" where
  "claim_with_amount cid a = valid_claim\<lparr>claim_id := cid, claim_amount := Some a\<rparr>"


definition batch_same :: "claim list" where
  "batch_same = [claim_with_amount ''CLM-0001'' 300, claim_with_amount ''CLM-0002'' 300]"


text \<open>Eleven valid records of amount 0 and one of amount 12, all with one procedure code.\<close>

definition batch12 :: "claim list" where
  "batch12 =
     map (\<lambda>cid. claim_with_amount cid 0)
       [''CLM-0001'', ''CLM-0002'', ''CLM-0003'', ''CLM-0004'', ''CLM-0005'', ''CLM-0006'',
        ''CLM-0007'', ''CLM-0008'', ''CLM-0009'', ''CLM-0010'', ''CLM-0011'']
     @ [claim_with_amount ''CLM-0012'' 12]"

section \<open>Reading back a column built from codes\<close>

lemma split_on_not_Nil: "split_on d s \<noteq> []"
  by (induction s) (auto split: list.splits)

lemma split_on_append_sep: "split_on d (a @ d # b) = split_on d a @ split_on d b"
proof (induction a)
  case Nil
  then show ?case by simp
next
  case (Cons ch cs)
  obtain w ws where "split_on d cs = w # ws"
    using split_on_not_Nil [of d cs] by (cases "split_on d cs") auto
  with Cons show ?case by simp
qed

lemma issue_list_Nil: "issue_list [] = []"
  by (simp add: issue_list_def)

lemma issue_list_append_sep:
  "issue_list (a @ CHR '';'' # b) = issue_list a @ issue_list b"
  by (simp add: issue_list_def split_on_append_sep)

lemma issue_list_append:
  assumes "closed_issues a"
  shows "issue_list (a @ b) = issue_list a @ issue_list b"
proof (cases "a = []")
  case True
  then show ?thesis by (simp add: issue_list_Nil)
next
  case False
  with assms have "a = butlast a @ [CHR '';'']"
    by (metis closed_issues_def append_butlast_last_id)
  then obtain a' where a: "a = a' @ [CHR '';'']" ..
  have "issue_list (a @ b) = issue_list a' @ issue_list b"
    using issue_list_append_sep [of a' b] by (simp add: a)
  moreover have "issue_list a = issue_list a'"
    using issue_list_append_sep [of a' "[]"] by (simp add: a issue_list_Nil)
  ultimately show ?thesis by simp
qed



lemma issue_list_codes:
  "issue_list ''MISSING_MEMBER_ID;'' = [''MISSING_MEMBER_ID'']"
  "issue_list ''MISSING_NPI;'' = [''MISSING_NPI'']"
  "issue_list ''MISSING_CPT;'' = [''MISSING_CPT'']"
  "issue_list ''MISSING_DIAGNOSIS;'' = [''MISSING_DIAGNOSIS'']"
  "issue_list ''MISSING_AMOUNT;'' = [''MISSING_AMOUNT'']"
  "issue_list ''INVALID_NPI;'' = [''INVALID_NPI'']"
  "issue_list ''NEGATIVE_AMOUNT;'' = [''NEGATIVE_AMOUNT'']"
  "issue_list ''EXCESSIVE_AMOUNT;'' = [''EXCESSIVE_AMOUNT'']"
  "issue_list ''FUTURE_SERVICE_DATE;'' = [''FUTURE_SERVICE_DATE'']"
  "issue_list ''LATE_SUBMISSION;'' = [''LATE_SUBMISSION'']"
  "issue_list ''SUBMISSION_BEFORE_SERVICE;'' = [''SUBMISSION_BEFORE_SERVICE'']"
  "issue_list ''INVALID_STATUS;'' = [''INVALID_STATUS'']"
  "issue_list ''INVALID_GENDER;'' = [''INVALID_GENDER'']"
  "issue_list ''INVALID_ZIP;'' = [''INVALID_ZIP'']"
  by (simp_all add: issue_list_def)

lemma issue_list_null_checks:
  "issue_list (null_checks c []) =
     (if member_id c = None then [''MISSING_MEMBER_ID'']
      else if provider_npi c = None then [''MISSING_NPI'']
      else if cpt_code c = None then [''MISSING_CPT'']
      else if icd10_code c = None \<or> icd10_code c = Some [] then [''MISSING_DIAGNOSIS'']
      else if claim_amount c = None then [''MISSING_AMOUNT'']
      else [])"
proof -
  have d: "(sql_or (isNull (icd10_code c)) (sql_eq (icd10_code c) (Some [])) = Some True)
        = (icd10_code c = None \<or> icd10_code c = Some [])"
    by (cases "icd10_code c") (simp_all add: isNull_def sql_or_def sql_eq_def sql_binop_def)
  show ?thesis
    unfolding null_checks_def when_otherwise.simps d
    by (simp add: isNull_def issue_list_codes issue_list_Nil)
qed

lemma issue_list_npi_check:
  "issue_list (npi_check c []) = (if npi_valid c = Some False then [''INVALID_NPI''] else [])"
  by (cases "npi_valid c") (simp_all add: npi_check_def issue_list_codes issue_list_Nil)

lemma issue_list_amount_checks:
  "issue_list (amount_checks c []) =
     (if sql_lt (claim_amount c) (Some min_claim_amount) = Some True then [''NEGATIVE_AMOUNT'']
      else if sql_gt (claim_amount c) (Some max_claim_amount) = Some True
        then [''EXCESSIVE_AMOUNT'']
      else [])"
  by (simp add: amount_checks_def issue_list_codes issue_list_Nil)

lemma issue_list_date_checks:
  "issue_list (date_checks d c []) =
     (if sql_gt (service_date c) (Some d) = Some True then [''FUTURE_SERVICE_DATE'']
      else if sql_gt (datediff (submission_date c) (service_date c))
                (Some max_days_to_submission) = Some True
        then [''LATE_SUBMISSION'']
      else if sql_lt (submission_date c) (service_date c) = Some True
        then [''SUBMISSION_BEFORE_SERVICE'']
      else [])"
  by (simp add: date_checks_def issue_list_codes issue_list_Nil)

lemma issue_list_status_check:
  "issue_list (status_check c []) =
     (if isin (claim_status c) valid_statuses = Some False then [''INVALID_STATUS''] else [])"
  by (cases "isin (claim_status c) valid_statuses")
     (simp_all add: status_check_def issue_list_codes issue_list_Nil)

lemma issue_list_gender_check:
  "issue_list (gender_check c []) =
     (if isin (patient_gender c) valid_genders = Some False then [''INVALID_GENDER''] else [])"
  by (cases "isin (patient_gender c) valid_genders")
     (simp_all add: gender_check_def issue_list_codes issue_list_Nil)

lemma issue_list_zip_check:
  "issue_list (zip_check c []) =
     (if map_option rlike_zip (patient_zip c) = Some False then [''INVALID_ZIP''] else [])"
  by (cases "patient_zip c") (simp_all add: zip_check_def issue_list_codes issue_list_Nil)

lemma npi_check_append: "npi_check c dq = dq @ npi_check c []"
  by (simp add: npi_check_def)
lemma amount_checks_append: "amount_checks c dq = dq @ amount_checks c []"
  by (simp add: amount_checks_def)
lemma date_checks_append: "date_checks d c dq = dq @ date_checks d c []"
  by (simp add: date_checks_def)
lemma status_check_append: "status_check c dq = dq @ status_check c []"
  by (simp add: status_check_def)
lemma gender_check_append: "gender_check c dq = dq @ gender_check c []"
  by (simp add: gender_check_def)
lemma zip_check_append: "zip_check c dq = dq @ zip_check c []"
  by (simp add: zip_check_def)

lemma closed_append: "closed_issues a \<Longrightarrow> closed_issues b \<Longrightarrow> closed_issues (a @ b)"
  by (cases "b = []") (simp_all add: closed_issues_def)

lemma closed_blocks:
  "closed_issues (null_checks c [])" "closed_issues (npi_check c [])"
  "closed_issues (amount_checks c [])" "closed_issues (date_checks d c [])"
  "closed_issues (status_check c [])" "closed_issues (gender_check c [])"
  "closed_issues (zip_check c [])"
  by (simp_all add: closed_issues_def null_checks_def npi_check_def amount_checks_def
      date_checks_def status_check_def gender_check_def zip_check_def)

lemma dq_issues_blocks:
  "dq_issues d c =
     null_checks c [] @ npi_check c [] @ amount_checks c [] @ date_checks d c [] @
     status_check c [] @ gender_check c [] @ zip_check c []"
  unfolding dq_issues_def
  apply (subst zip_check_append, subst gender_check_append, subst status_check_append,
         subst date_checks_append, subst amount_checks_append, subst npi_check_append)
  apply simp
  done

lemma issue_list_dq_issues:
  "issue_list (dq_issues d c) =
     issue_list (null_checks c []) @ issue_list (npi_check c []) @
     issue_list (amount_checks c []) @ issue_list (date_checks d c []) @
     issue_list (status_check c []) @ issue_list (gender_check c []) @
     issue_list (zip_check c [])"
  by (simp add: dq_issues_blocks issue_list_append closed_blocks closed_append)


lemma filter_null_codes:
  "filter (\<lambda>i. i \<in> set null_codes) (issue_list (null_checks c [])) = issue_list (null_checks c [])"
  "filter (\<lambda>i. i \<in> set null_codes) (issue_list (npi_check c [])) = []"
  "filter (\<lambda>i. i \<in> set null_codes) (issue_list (amount_checks c [])) = []"
  "filter (\<lambda>i. i \<in> set null_codes) (issue_list (date_checks d c [])) = []"
  "filter (\<lambda>i. i \<in> set null_codes) (issue_list (status_check c [])) = []"
  "filter (\<lambda>i. i \<in> set null_codes) (issue_list (gender_check c [])) = []"
  "filter (\<lambda>i. i \<in> set null_codes) (issue_list (zip_check c [])) = []"
  by (simp_all add: null_codes_def issue_list_null_checks issue_list_npi_check
      issue_list_amount_checks issue_list_date_checks issue_list_status_check
      issue_list_gender_check issue_list_zip_check)

lemma filter_amount_codes:
  "filter (\<lambda>i. i \<in> set amount_codes) (issue_list (null_checks c [])) = []"
  "filter (\<lambda>i. i \<in> set amount_codes) (issue_list (npi_check c [])) = []"
  "filter (\<lambda>i. i \<in> set amount_codes) (issue_list (amount_checks c [])) = issue_list (amount_checks c [])"
  "filter (\<lambda>i. i \<in> set amount_codes) (issue_list (date_checks d c [])) = []"
  "filter (\<lambda>i. i \<in> set amount_codes) (issue_list (status_check c [])) = []"
  "filter (\<lambda>i. i \<in> set amount_codes) (issue_list (gender_check c [])) = []"
  "filter (\<lambda>i. i \<in> set amount_codes) (issue_list (zip_check c [])) = []"
  by (simp_all add: amount_codes_def issue_list_null_checks issue_list_npi_check
      issue_list_amount_checks issue_list_date_checks issue_list_status_check
      issue_list_gender_check issue_list_zip_check)

lemma filter_date_codes:
  "filter (\<lambda>i. i \<in> set date_codes) (issue_list (null_checks c [])) = []"
  "filter (\<lambda>i. i \<in> set date_codes) (issue_list (npi_check c [])) = []"
  "filter (\<lambda>i. i \<in> set date_codes) (issue_list (amount_checks c [])) = []"
  "filter (\<lambda>i. i \<in> set date_codes) (issue_list (date_checks d c [])) = issue_list (date_checks d c [])"
  "filter (\<lambda>i. i \<in> set date_codes) (issue_list (status_check c [])) = []"
  "filter (\<lambda>i. i \<in> set date_codes) (issue_list (gender_check c [])) = []"
  "filter (\<lambda>i. i \<in> set date_codes) (issue_list (zip_check c [])) = []"
  by (simp_all add: date_codes_def issue_list_null_checks issue_list_npi_check
      issue_list_amount_checks issue_list_date_checks issue_list_status_check
      issue_list_gender_check issue_list_zip_check)

lemma block_codes_of_row:
  "filter (\<lambda>i. i \<in> set null_codes) (issue_list (dq_issues d c)) = issue_list (null_checks c [])"
  "filter (\<lambda>i. i \<in> set amount_codes) (issue_list (dq_issues d c)) = issue_list (amount_checks c [])"
  "filter (\<lambda>i. i \<in> set date_codes) (issue_list (dq_issues d c)) = issue_list (date_checks d c [])"
  by (simp_all add: issue_list_dq_issues filter_null_codes filter_amount_codes filter_date_codes)

section \<open>The chained blocks of the Glue validator\<close>

text \<open>
  Claim C10. In the Glue validator each chained \<^verbatim>\<open>when/otherwise\<close> block records
  exactly the code of its first true condition and nothing when none is true. The
  missing-value codes in the final issue list of a record are MISSING_MEMBER_ID when
  \<^verbatim>\<open>member_id\<close> is NULL; otherwise MISSING_NPI when \<^verbatim>\<open>provider_npi\<close> is NULL;
  otherwise MISSING_CPT when \<^verbatim>\<open>cpt_code\<close> is NULL; otherwise MISSING_DIAGNOSIS when
  \<^verbatim>\<open>icd10_code\<close> is NULL or empty; otherwise MISSING_AMOUNT when \<^verbatim>\<open>claim_amount\<close> is
  NULL; otherwise none. The date codes are FUTURE_SERVICE_DATE when the service date is
  after the current date; otherwise LATE_SUBMISSION when the submission is more than 365
  days after the service; otherwise SUBMISSION_BEFORE_SERVICE when the submission date
  is before the service date; otherwise none. The amount codes are NEGATIVE_AMOUNT when
  the amount is below 0, otherwise EXCESSIVE_AMOUNT when it is above 100000, otherwise
  none. So of each block at most one code appears, the first matching one, and the later
  codes of the block are suppressed: with \<^verbatim>\<open>member_id\<close> NULL the only missing-value code
  is MISSING_MEMBER_ID, and with a future service date the only date code is
  FUTURE_SERVICE_DATE.
\<close>

theorem glue_block_first_match:
  "filter (\<lambda>i. i \<in> set null_codes) (issue_list (dq_issues d c)) =
     (if member_id c = None then [''MISSING_MEMBER_ID'']
      else if provider_npi c = None then [''MISSING_NPI'']
      else if cpt_code c = None then [''MISSING_CPT'']
      else if icd10_code c = None \<or> icd10_code c = Some [] then [''MISSING_DIAGNOSIS'']
      else if claim_amount c = None then [''MISSING_AMOUNT'']
      else []) \<and>
   filter (\<lambda>i. i \<in> set amount_codes) (issue_list (dq_issues d c)) =
     (if sql_lt (claim_amount c) (Some min_claim_amount) = Some True then [''NEGATIVE_AMOUNT'']
      else if sql_gt (claim_amount c) (Some max_claim_amount) = Some True
        then [''EXCESSIVE_AMOUNT'']
      else []) \<and>
   filter (\<lambda>i. i \<in> set date_codes) (issue_list (dq_issues d c)) =
     (if sql_gt (service_date c) (Some d) = Some True then [''FUTURE_SERVICE_DATE'']
      else if sql_gt (datediff (submission_date c) (service_date c))
                (Some max_days_to_submission) = Some True
        then [''LATE_SUBMISSION'']
      else if sql_lt (submission_date c) (service_date c) = Some True
        then [''SUBMISSION_BEFORE_SERVICE'']
      else []) \<and>
   length (filter (\<lambda>i. i \<in> set null_codes) (issue_list (dq_issues d c))) \<le> 1 \<and>
   length (filter (\<lambda>i. i \<in> set amount_codes) (issue_list (dq_issues d c))) \<le> 1 \<and>
   length (filter (\<lambda>i. i \<in> set date_codes) (issue_list (dq_issues d c))) \<le> 1 \<and>
   (member_id c = None \<longrightarrow>
      filter (\<lambda>i. i \<in> set null_codes) (issue_list (dq_issues d c)) = [''MISSING_MEMBER_ID'']) \<and>
   (sql_gt (service_date c) (Some d) = Some True \<longrightarrow>
      filter (\<lambda>i. i \<in> set date_codes) (issue_list (dq_issues d c)) = [''FUTURE_SERVICE_DATE''])"
  unfolding block_codes_of_row
  by (simp add: issue_list_null_checks issue_list_amount_checks issue_list_date_checks)

theorem glue_block_first_match_witness:
  "member_id (valid_claim\<lparr>member_id := None, cpt_code := None, service_date := Some 20001,
       submission_date := Some 19990\<rparr>) = None \<and>
   cpt_code (valid_claim\<lparr>member_id := None, cpt_code := None, service_date := Some 20001,
       submission_date := Some 19990\<rparr>) = None \<and>
   sql_gt (service_date (valid_claim\<lparr>member_id := None, cpt_code := None, service_date := Some 20001,
       submission_date := Some 19990\<rparr>)) (Some 20000) = Some True \<and>
   sql_lt (submission_date (valid_claim\<lparr>member_id := None, cpt_code := None, service_date := Some 20001,
       submission_date := Some 19990\<rparr>)) (service_date (valid_claim\<lparr>member_id := None, cpt_code := None, service_date := Some 20001,
       submission_date := Some 19990\<rparr>)) = Some True \<and>
   filter (\<lambda>i. i \<in> set null_codes) (issue_list (dq_issues 20000
      (valid_claim\<lparr>member_id := None, cpt_code := None, service_date := Some 20001,
       submission_date := Some 19990\<rparr>))) = [''MISSING_MEMBER_ID''] \<and>
   filter (\<lambda>i. i \<in> set date_codes) (issue_list (dq_issues 20000
      (valid_claim\<lparr>member_id := None, cpt_code := None, service_date := Some 20001,
       submission_date := Some 19990\<rparr>))) = [''FUTURE_SERVICE_DATE''] \<and>
   filter (\<lambda>i. i \<in> set null_codes) (issue_list (dq_issues 20000
      (valid_claim\<lparr>provider_npi := None, cpt_code := None\<rparr>))) = [''MISSING_NPI''] \<and>
   filter (\<lambda>i. i \<in> set null_codes) (issue_list (dq_issues 20000
      (valid_claim\<lparr>cpt_code := None, icd10_code := Some [], claim_amount := None\<rparr>)))
     = [''MISSING_CPT''] \<and>
   filter (\<lambda>i. i \<in> set date_codes) (issue_list (dq_issues 20000
      (valid_claim\<lparr>service_date := Some 19000, submission_date := Some 18000\<rparr>)))
     = [''SUBMISSION_BEFORE_SERVICE''] \<and>
   filter (\<lambda>i. i \<in> set date_codes) (issue_list (dq_issues 20000
      (valid_claim\<lparr>service_date := Some 19000, submission_date := Some 19400\<rparr>)))
     = [''LATE_SUBMISSION''] \<and>
   filter (\<lambda>i. i \<in> set amount_codes) (issue_list (dq_issues 20000
      (valid_claim\<lparr>claim_amount := Some 100001\<rparr>))) = [''EXCESSIVE_AMOUNT'']"
  using glue_block_first_match [of 20000 "valid_claim\<lparr>member_id := None, cpt_code := None,
       service_date := Some 20001, submission_date := Some 19990\<rparr>"]
    glue_block_first_match [of 20000 "valid_claim\<lparr>provider_npi := None, cpt_code := None\<rparr>"]
    glue_block_first_match [of 20000
      "valid_claim\<lparr>cpt_code := None, icd10_code := Some [], claim_amount := None\<rparr>"]
    glue_block_first_match [of 20000
      "valid_claim\<lparr>service_date := Some 19000, submission_date := Some 18000\<rparr>"]
    glue_block_first_match [of 20000
      "valid_claim\<lparr>service_date := Some 19000, submission_date := Some 19400\<rparr>"]
    glue_block_first_match [of 20000 "valid_claim\<lparr>claim_amount := Some 100001\<rparr>"]
  by (simp add: valid_claim_def sql_gt_def sql_lt_def sql_binop_def datediff_def
      min_claim_amount_def max_claim_amount_def max_days_to_submission_def)

section \<open>The issue list of the pandas validator\<close>

lemma closed_Nil: "closed_issues []"
  by (simp add: closed_issues_def)

lemma closed_codes:
  "closed_issues ''MISSING_MEMBER_ID;''"
  "closed_issues ''MISSING_NPI;''"
  "closed_issues ''MISSING_CPT;''"
  "closed_issues ''MISSING_DIAGNOSIS;''"
  "closed_issues ''MISSING_AMOUNT;''"
  "closed_issues ''INVALID_NPI;''"
  "closed_issues ''NEGATIVE_AMOUNT;''"
  "closed_issues ''EXCESSIVE_AMOUNT;''"
  "closed_issues ''FUTURE_SERVICE_DATE;''"
  "closed_issues ''LATE_SUBMISSION;''"
  "closed_issues ''SUBMISSION_BEFORE_SERVICE;''"
  "closed_issues ''INVALID_STATUS;''"
  "closed_issues ''INVALID_GENDER;''"
  by (simp_all add: closed_issues_def)

lemma closed_loc_append:
  "closed_issues dq \<Longrightarrow> closed_issues code \<Longrightarrow> closed_issues (loc_append b code dq)"
  by (simp add: loc_append_def closed_append)

lemma issue_list_loc_append:
  "closed_issues dq \<Longrightarrow>
   issue_list (loc_append b code dq) = issue_list dq @ (if b then issue_list code else [])"
  by (simp add: loc_append_def issue_list_append)

lemma issue_list_dq_issues_pd:
  "issue_list (dq_issues_pd d c) =
     (if isna (member_id c) then [''MISSING_MEMBER_ID''] else []) @
     (if isna (provider_npi c) then [''MISSING_NPI''] else []) @
     (if isna (cpt_code c) then [''MISSING_CPT''] else []) @
     (if isna (icd10_code c) \<or> icd10_code c = Some [] then [''MISSING_DIAGNOSIS''] else []) @
     (if isna (claim_amount c) then [''MISSING_AMOUNT''] else []) @
     (if \<not> npi_valid_pd c then [''INVALID_NPI''] else []) @
     (if pd_lt (claim_amount c) (Some min_claim_amount) then [''NEGATIVE_AMOUNT''] else []) @
     (if pd_gt (claim_amount c) (Some max_claim_amount) then [''EXCESSIVE_AMOUNT''] else []) @
     (if pd_gt (service_date c) (Some d) then [''FUTURE_SERVICE_DATE''] else []) @
     (if pd_gt (days_to_submission c) (Some max_days_to_submission)
      then [''LATE_SUBMISSION''] else []) @
     (if pd_lt (submission_date c) (service_date c) then [''SUBMISSION_BEFORE_SERVICE''] else []) @
     (if \<not> pd_isin (claim_status c) valid_statuses then [''INVALID_STATUS''] else []) @
     (if \<not> pd_isin (patient_gender c) valid_genders then [''INVALID_GENDER''] else [])"
  unfolding dq_issues_pd_def Let_def
  by (simp add: issue_list_loc_append closed_loc_append closed_Nil closed_codes
      issue_list_codes issue_list_Nil del: if_split cong: if_cong)


section \<open>Rule accumulation\<close>

lemmas sql_defs =
  isNull_def sql_and_def sql_or_def sql_binop_def sql_eq_def sql_lt_def sql_gt_def
  sql_length_def datediff_def isin_def

lemmas rule_consts =
  min_claim_amount_def max_claim_amount_def npi_length_def max_days_to_submission_def
  valid_statuses_def valid_genders_def

lemmas regex_defs =
  is_digit_def java_dollar_def rlike_npi_def rlike_zip_def py_dollar_def py_match_npi_def

lemmas glue_issue_lists =
  issue_list_dq_issues issue_list_null_checks issue_list_npi_check issue_list_amount_checks
  issue_list_date_checks issue_list_status_check issue_list_gender_check issue_list_zip_check
  npi_valid_def

lemmas pd_defs =
  isna_def pd_lt_def pd_gt_def pd_isin_def astype_str_def npi_valid_pd_def
  days_to_submission_def

text \<open>
  Claim C1. The claim asks that every matching rule is recorded. The pandas validator
  does so (\<open>issue_list_dq_issues_pd\<close>: its issue list is the concatenation of one
  independent piece per rule). The Glue validator does not: for a record whose
  \<^verbatim>\<open>member_id\<close> and \<^verbatim>\<open>provider_npi\<close> are both NULL it records MISSING_MEMBER_ID alone,
  and for a record whose service date is in the future and whose submission date lies
  before the service date it records FUTURE_SERVICE_DATE alone, where the pandas
  validator records every code that applies.
\<close>

theorem glue_two_missing_eval:
  "member_id (valid_claim\<lparr>member_id := None, provider_npi := None\<rparr>) = None \<and>
   provider_npi (valid_claim\<lparr>member_id := None, provider_npi := None\<rparr>) = None \<and>
   issue_list (dq_issues 20000 (valid_claim\<lparr>member_id := None, provider_npi := None\<rparr>))
     = [''MISSING_MEMBER_ID''] \<and>
   issue_list (dq_issues_pd 20000 (valid_claim\<lparr>member_id := None, provider_npi := None\<rparr>))
     = [''MISSING_MEMBER_ID'', ''MISSING_NPI'', ''INVALID_NPI''] \<and>
   issue_list (dq_issues 20000
       (valid_claim\<lparr>service_date := Some 20001, submission_date := Some 19990\<rparr>))
     = [''FUTURE_SERVICE_DATE''] \<and>
   issue_list (dq_issues_pd 20000
       (valid_claim\<lparr>service_date := Some 20001, submission_date := Some 19990\<rparr>))
     = [''FUTURE_SERVICE_DATE'', ''SUBMISSION_BEFORE_SERVICE'']"
  by (simp add: glue_issue_lists issue_list_dq_issues_pd valid_claim_def sql_defs rule_consts
      regex_defs pd_defs)

section \<open>The status rule\<close>

text \<open>
  Claim C9. A record whose \<^verbatim>\<open>claim_status\<close> is NULL and that is otherwise valid gets
  no issue code from the Glue validator, so INVALID_STATUS is not recorded for it; the
  pandas validator records INVALID_STATUS for the same record.
\<close>

theorem glue_null_status_eval:
  "claim_status (valid_claim\<lparr>claim_status := None\<rparr>) = None \<and>
   issue_list (dq_issues 20000 (valid_claim\<lparr>claim_status := None\<rparr>)) = [] \<and>
   issue_list (dq_issues_pd 20000 (valid_claim\<lparr>claim_status := None\<rparr>)) = [''INVALID_STATUS'']"
  by (simp add: glue_issue_lists issue_list_dq_issues_pd valid_claim_def sql_defs rule_consts
      regex_defs pd_defs)

text \<open>
  In general the Glue validator records INVALID_STATUS exactly for a status that is
  present and outside the valid set, the pandas validator exactly for a status that is
  not a member of the valid set, the absent one included.
\<close>

lemma glue_invalid_status_iff:
  "''INVALID_STATUS'' \<in> set (issue_list (dq_issues d c)) \<longleftrightarrow>
   (\<exists>s. claim_status c = Some s \<and> s \<notin> set valid_statuses)"
  by (cases "claim_status c") (simp_all add: glue_issue_lists isin_def)

lemma pd_invalid_status_iff:
  "''INVALID_STATUS'' \<in> set (issue_list (dq_issues_pd d c)) \<longleftrightarrow>
   claim_status c \<notin> Some ` set valid_statuses"
  by (cases "claim_status c") (auto simp add: issue_list_dq_issues_pd pd_isin_def)

section \<open>Unparsable dates\<close>

text \<open>
  A record that is valid but for an unparsable service date gets no issue code at all
  from either validator.
\<close>

theorem unparsable_date_counterexample:
  "service_date (valid_claim\<lparr>service_date := None\<rparr>) = None \<and>
   issue_list (dq_issues 20000 (valid_claim\<lparr>service_date := None\<rparr>)) = [] \<and>
   issue_list (dq_issues_pd 20000 (valid_claim\<lparr>service_date := None\<rparr>)) = []"
  by (simp add: glue_issue_lists issue_list_dq_issues_pd valid_claim_def sql_defs rule_consts
      regex_defs pd_defs)

lemma filter_date_codes_pd:
  "filter (\<lambda>i. i \<in> set date_codes) (issue_list (dq_issues_pd d c)) =
     (if pd_gt (service_date c) (Some d) then [''FUTURE_SERVICE_DATE''] else []) @
     (if pd_gt (days_to_submission c) (Some max_days_to_submission)
      then [''LATE_SUBMISSION''] else []) @
     (if pd_lt (submission_date c) (service_date c) then [''SUBMISSION_BEFORE_SERVICE''] else [])"
  by (simp add: issue_list_dq_issues_pd date_codes_def)

text \<open>
  Claim C3, amended. No date rule that depends on an unparsable date fires, in either
  validator: with an unparsable service date none of FUTURE_SERVICE_DATE,
  LATE_SUBMISSION and SUBMISSION_BEFORE_SERVICE is recorded, and with an unparsable
  submission date the only date code that can be recorded is FUTURE_SERVICE_DATE, which
  depends on the service date alone. The validators have no error result: a row with an
  unparsable date is processed like any other.
\<close>

theorem unparsable_date_fires_no_date_rule:
  "(service_date c = None \<longrightarrow>
      filter (\<lambda>i. i \<in> set date_codes) (issue_list (dq_issues d c)) = [] \<and>
      filter (\<lambda>i. i \<in> set date_codes) (issue_list (dq_issues_pd d c)) = []) \<and>
   (submission_date c = None \<longrightarrow>
      filter (\<lambda>i. i \<in> set date_codes) (issue_list (dq_issues d c)) =
        (if sql_gt (service_date c) (Some d) = Some True then [''FUTURE_SERVICE_DATE''] else []) \<and>
      filter (\<lambda>i. i \<in> set date_codes) (issue_list (dq_issues_pd d c)) =
        (if pd_gt (service_date c) (Some d) then [''FUTURE_SERVICE_DATE''] else []))"
  by (cases "service_date c"; cases "submission_date c")
     (simp_all add: block_codes_of_row issue_list_date_checks filter_date_codes_pd sql_gt_def
      sql_lt_def sql_binop_def datediff_def pd_gt_def pd_lt_def days_to_submission_def)


theorem unparsable_date_fires_no_date_rule_witness:
  "service_date (valid_claim\<lparr>service_date := None\<rparr>) = None \<and>
   submission_date (valid_claim\<lparr>submission_date := None\<rparr>) = None \<and>
   filter (\<lambda>i. i \<in> set date_codes)
     (issue_list (dq_issues 20000 (valid_claim\<lparr>service_date := None\<rparr>))) = [] \<and>
   filter (\<lambda>i. i \<in> set date_codes)
     (issue_list (dq_issues_pd 20000 (valid_claim\<lparr>service_date := None\<rparr>))) = [] \<and>
   filter (\<lambda>i. i \<in> set date_codes)
     (issue_list (dq_issues 20000 (valid_claim\<lparr>submission_date := None\<rparr>))) = [] \<and>
   filter (\<lambda>i. i \<in> set date_codes)
     (issue_list (dq_issues_pd 20000 (valid_claim\<lparr>submission_date := None\<rparr>))) = []"
  using unparsable_date_fires_no_date_rule [of "valid_claim\<lparr>service_date := None\<rparr>" 20000]
    unparsable_date_fires_no_date_rule [of "valid_claim\<lparr>submission_date := None\<rparr>" 20000]
  by (simp add: valid_claim_def sql_gt_def sql_binop_def pd_gt_def)

section \<open>Batch independence of the rule issues\<close>

lemma dq_df_member: "(c, i) \<in> set (dq_df d df) \<longleftrightarrow> c \<in> set df \<and> i = dq_issues d c"
  by (auto simp: dq_df_def)

lemma clean_df_eq:
  "fst (validate_data_quality d df) = filter (\<lambda>c. dq_issues d c = []) df"
  by (simp add: validate_data_quality_def dq_df_def Let_def filter_map o_def)

lemma dq_failures_df_eq:
  "snd (validate_data_quality d df) =
     map (\<lambda>c. (c, dq_issues d c)) (filter (\<lambda>c. dq_issues d c \<noteq> []) df)"
  by (simp add: validate_data_quality_def dq_df_def Let_def filter_map o_def)

lemma clean_df_pd_eq:
  "fst (validate_data_quality_pd d df) = filter (\<lambda>c. dq_issues_pd d c = []) df"
  by (simp add: validate_data_quality_pd_def Let_def filter_map o_def)

lemma anomalies_df_pd_eq:
  "snd (validate_data_quality_pd d df) =
     map (\<lambda>c. (c, dq_issues_pd d c)) (filter (\<lambda>c. dq_issues_pd d c \<noteq> []) df)"
  by (simp add: validate_data_quality_pd_def Let_def filter_map o_def)

lemma clean_member:
  "c \<in> set (fst (validate_data_quality d df)) \<longleftrightarrow> c \<in> set df \<and> dq_issues d c = []"
  by (simp add: clean_df_eq)

lemma failures_member:
  "(c, i) \<in> set (snd (validate_data_quality d df)) \<longleftrightarrow>
     c \<in> set df \<and> i = dq_issues d c \<and> dq_issues d c \<noteq> []"
  by (auto simp: dq_failures_df_eq)

lemma clean_member_pd:
  "c \<in> set (fst (validate_data_quality_pd d df)) \<longleftrightarrow> c \<in> set df \<and> dq_issues_pd d c = []"
  by (simp add: clean_df_pd_eq)

lemma failures_member_pd:
  "(c, i) \<in> set (snd (validate_data_quality_pd d df)) \<longleftrightarrow>
     c \<in> set df \<and> i = dq_issues_pd d c \<and> dq_issues_pd d c \<noteq> []"
  by (auto simp: anomalies_df_pd_eq)

lemma failures_claims:
  "c \<in> fst ` set (snd (validate_data_quality d df)) \<longleftrightarrow> c \<in> set df \<and> dq_issues d c \<noteq> []"
  by (auto simp: dq_failures_df_eq image_iff)

text \<open>
  Claim C8. For a claim that occurs in two batches validated on the same day, the value
  of its issue column is the same in both, and so is its membership in the SILVER
  output and in the rule-clean output; this holds for the Glue and for the pandas
  validator.
\<close>

theorem issues_independent_of_batch:
  assumes "c \<in> set df1" and "c \<in> set df2"
  shows "((c, i) \<in> set (dq_df d df1) \<longleftrightarrow> (c, i) \<in> set (dq_df d df2)) \<and>
         ((c, i) \<in> set (silver_claims d df1) \<longleftrightarrow> (c, i) \<in> set (silver_claims d df2)) \<and>
         (c \<in> fst ` set (silver_claims d df1) \<longleftrightarrow> c \<in> fst ` set (silver_claims d df2)) \<and>
         (c \<in> set (fst (validate_data_quality d df1)) \<longleftrightarrow>
            c \<in> set (fst (validate_data_quality d df2))) \<and>
         ((c, i) \<in> set (snd (validate_data_quality_pd d df1)) \<longleftrightarrow>
            (c, i) \<in> set (snd (validate_data_quality_pd d df2))) \<and>
         (c \<in> set (fst (validate_data_quality_pd d df1)) \<longleftrightarrow>
            c \<in> set (fst (validate_data_quality_pd d df2)))"
  using assms
  by (simp add: dq_df_member silver_claims_def failures_member clean_member
      failures_member_pd clean_member_pd failures_claims)


theorem issues_independent_of_batch_witness:
  "valid_claim\<lparr>claim_amount := Some (- 250)\<rparr> \<in> set [valid_claim\<lparr>claim_amount := Some (- 250)\<rparr>] \<and>
   valid_claim\<lparr>claim_amount := Some (- 250)\<rparr>
     \<in> set [valid_claim, valid_claim\<lparr>claim_amount := Some (- 250)\<rparr>] \<and>
   (valid_claim\<lparr>claim_amount := Some (- 250)\<rparr>, ''NEGATIVE_AMOUNT;'')
     \<in> set (silver_claims 20000 [valid_claim\<lparr>claim_amount := Some (- 250)\<rparr>]) \<and>
   (valid_claim\<lparr>claim_amount := Some (- 250)\<rparr>, ''NEGATIVE_AMOUNT;'')
     \<in> set (silver_claims 20000 [valid_claim, valid_claim\<lparr>claim_amount := Some (- 250)\<rparr>])"
proof -
  let ?c = "valid_claim\<lparr>claim_amount := Some (- 250)\<rparr>"
  have a: "?c \<in> set [?c]" and b: "?c \<in> set [valid_claim, ?c]"
    by simp_all
  have i: "dq_issues 20000 ?c = ''NEGATIVE_AMOUNT;''"
    by (simp add: dq_issues_def null_checks_def npi_check_def amount_checks_def
        date_checks_def status_check_def gender_check_def zip_check_def npi_valid_def
        valid_claim_def sql_defs rule_consts regex_defs)
  have "(?c, ''NEGATIVE_AMOUNT;'') \<in> set (silver_claims 20000 [?c])"
    by (simp add: silver_claims_def failures_member i)
  with issues_independent_of_batch [OF a b, of "''NEGATIVE_AMOUNT;''" 20000] a b
  show ?thesis by blast
qed

section \<open>Grouping and joining\<close>

lemma filter_eq_distinct: "distinct xs \<Longrightarrow> x \<in> set xs \<Longrightarrow> filter (\<lambda>y. y = x) xs = [x]"
  by (induction xs) (auto simp: filter_empty_conv)

lemma concat_map_single: "(\<And>x. x \<in> set xs \<Longrightarrow> f x = [g x]) \<Longrightarrow> concat (map f xs) = map g xs"
  by (induction xs) simp_all

lemma sql_eq_Some_True: "(sql_eq a b = Some True) = (\<exists>k. a = Some k \<and> b = Some k)"
  by (cases a; cases b) (auto simp: sql_eq_def sql_binop_def)

lemma stats_match:
  assumes "c \<in> set df"
  shows "filter (\<lambda>s. sql_eq (cpt_code c) (stats_cpt_code s) = Some True) (stats_df df) =
           (case cpt_code c of None \<Rightarrow> [] | Some k \<Rightarrow> [agg_group df (Some k)])"
proof (cases "cpt_code c")
  case None
  then show ?thesis by (simp add: sql_eq_Some_True)
next
  case (Some k)
  have key: "Some k \<in> set (remdups (map cpt_code df))"
    using assms Some by (force simp: image_iff)
  have "filter (\<lambda>s. sql_eq (cpt_code c) (stats_cpt_code s) = Some True) (stats_df df) =
        map (agg_group df) (filter (\<lambda>k'. k' = Some k) (remdups (map cpt_code df)))"
    by (auto simp: stats_df_def filter_map o_def sql_eq_Some_True Some agg_group_def
        intro!: arg_cong [where f = "map _"] filter_cong)
  also have "\<dots> = [agg_group df (Some k)]"
    using filter_eq_distinct [OF distinct_remdups key] by simp
  finally show ?thesis by (simp add: Some)
qed

lemma join_left_stats: "join_left df (stats_df df) = map (\<lambda>c. (c, stats_for df c)) df"
  unfolding join_left_def
  by (rule concat_map_single) (simp add: stats_match stats_for_def split: option.splits)

lemma detect_eq:
  "detect_statistical_anomalies df = map (\<lambda>c. score_row (c, stats_for df c)) df"
  by (simp add: detect_statistical_anomalies_def join_left_stats o_def)

lemma stats_match_pd:
  assumes "c \<in> set df"
  shows "filter (\<lambda>s. cpt_code c = stats_cpt_code s) (stats_df_pd df) =
           (case cpt_code c of None \<Rightarrow> [] | Some k \<Rightarrow> [agg_group_pd df (Some k)])"
proof (cases "cpt_code c")
  case None
  then show ?thesis
    by (auto simp: stats_df_pd_def filter_map o_def agg_group_pd_def filter_empty_conv)
next
  case (Some k)
  have key: "Some k \<in> set (remdups (map cpt_code df))"
    using assms Some by (force simp: image_iff)
  have "filter (\<lambda>s. cpt_code c = stats_cpt_code s) (stats_df_pd df) =
        map (agg_group_pd df) (filter (\<lambda>k'. k' = Some k) (remdups (map cpt_code df)))"
    by (auto simp: stats_df_pd_def filter_map o_def Some agg_group_pd_def
        intro!: arg_cong [where f = "map _"] filter_cong)
  also have "\<dots> = [agg_group_pd df (Some k)]"
    using filter_eq_distinct [OF distinct_remdups key] by simp
  finally show ?thesis by (simp add: Some)
qed

lemma merge_left_stats: "merge_left df (stats_df_pd df) = map (\<lambda>c. (c, stats_for_pd df c)) df"
  unfolding merge_left_def
  by (rule concat_map_single) (simp add: stats_match_pd stats_for_pd_def split: option.splits)

lemma detect_pd_eq:
  "detect_statistical_anomalies_pd df = map (\<lambda>c. score_row_pd (c, stats_for_pd df c)) df"
  by (simp add: detect_statistical_anomalies_pd_def merge_left_stats o_def)


section \<open>Scoring a rule-clean row\<close>

text \<open>A rule-clean row has a procedure code and an amount.\<close>

lemma null_block_empty:
  assumes "dq_issues d c = []"
  shows "cpt_code c \<noteq> None \<and> claim_amount c \<noteq> None"
proof -
  have "issue_list (dq_issues d c) = []"
    by (simp add: assms issue_list_Nil)
  then have "issue_list (null_checks c []) = []"
    by (simp add: issue_list_dq_issues)
  then show ?thesis
    by (simp add: issue_list_null_checks split: if_splits)
qed

lemma null_rules_empty_pd:
  assumes "dq_issues_pd d c = []"
  shows "cpt_code c \<noteq> None \<and> claim_amount c \<noteq> None"
proof -
  have "issue_list (dq_issues_pd d c) = []"
    by (simp add: assms issue_list_Nil)
  then show ?thesis
    by (simp add: issue_list_dq_issues_pd isna_def split: if_splits)
qed

lemma group_amounts_member:
  "c \<in> set df \<Longrightarrow> claim_amount c = Some a \<Longrightarrow> a \<in> set (group_amounts df c)"
proof -
  have nn: "\<And>vs. Some a \<in> set vs \<Longrightarrow> a \<in> set (non_null vs)"
  proof -
    fix vs :: "real option list"
    show "Some a \<in> set vs \<Longrightarrow> a \<in> set (non_null vs)"
      by (induction vs rule: non_null.induct) auto
  qed
  assume "c \<in> set df" "claim_amount c = Some a"
  then have "Some a \<in> set (map claim_amount (group_rows df (cpt_code c)))"
    by (force simp: group_rows_def image_iff)
  then show ?thesis
    unfolding group_amounts_def by (rule nn)
qed

text \<open>The row the Glue detector computes for a claim with a procedure code and an amount.\<close>

lemma score_row_clean:
  assumes "c \<in> set df" and "cpt_code c = Some k" and "claim_amount c = Some a"
  shows "z_score (score_row (c, stats_for df c)) =
           Some (if 2 \<le> length (group_amounts df c) \<and> 0 < sample_stddev (group_amounts df c)
                 then (a - mean (group_amounts df c)) / sample_stddev (group_amounts df c)
                 else 0)"
    and "is_statistical_outlier (score_row (c, stats_for df c)) =
           Some (3 < \<bar>if 2 \<le> length (group_amounts df c) \<and> 0 < sample_stddev (group_amounts df c)
                 then (a - mean (group_amounts df c)) / sample_stddev (group_amounts df c)
                 else 0\<bar>)"
    and "row_claim (score_row (c, stats_for df c)) = c"
    and "stddev_amount (score_row (c, stats_for df c)) =
           (if 2 \<le> length (group_amounts df c) then Some (sample_stddev (group_amounts df c))
            else None)"
    and "avg_amount (score_row (c, stats_for df c)) = Some (mean (group_amounts df c))"
proof -
  have ne: "group_amounts df c \<noteq> []"
    using group_amounts_member [OF assms(1,3)] by auto
  have avg: "Option.bind (stats_for df c) stats_avg_amount = Some (mean (group_amounts df c))"
    using ne by (simp add: stats_for_def assms(2) agg_group_def sql_avg_def group_amounts_def Let_def)
  have sd: "Option.bind (stats_for df c) stats_stddev_amount =
      (if 2 \<le> length (group_amounts df c) then Some (sample_stddev (group_amounts df c)) else None)"
    by (simp add: stats_for_def assms(2) agg_group_def sql_stddev_def group_amounts_def Let_def
        not_less)
  show "z_score (score_row (c, stats_for df c)) =
           Some (if 2 \<le> length (group_amounts df c) \<and> 0 < sample_stddev (group_amounts df c)
                 then (a - mean (group_amounts df c)) / sample_stddev (group_amounts df c)
                 else 0)"
    by (simp add: score_row_def Let_def avg sd assms(3) sql_gt_def sql_binop_def sql_divide_def
        sql_minus_def)
  show "is_statistical_outlier (score_row (c, stats_for df c)) =
           Some (3 < \<bar>if 2 \<le> length (group_amounts df c) \<and> 0 < sample_stddev (group_amounts df c)
                 then (a - mean (group_amounts df c)) / sample_stddev (group_amounts df c)
                 else 0\<bar>)"
    by (simp add: score_row_def Let_def avg sd assms(3) sql_gt_def sql_binop_def sql_divide_def
        sql_minus_def sql_abs_def)
  show "row_claim (score_row (c, stats_for df c)) = c"
    by (simp add: score_row_def Let_def)
  show "stddev_amount (score_row (c, stats_for df c)) =
           (if 2 \<le> length (group_amounts df c) then Some (sample_stddev (group_amounts df c))
            else None)"
    by (simp add: score_row_def Let_def sd)
  show "avg_amount (score_row (c, stats_for df c)) = Some (mean (group_amounts df c))"
    by (simp add: score_row_def Let_def avg)
qed


lemma score_row_pd_clean:
  assumes "c \<in> set df" and "cpt_code c = Some k" and "claim_amount c = Some a"
  shows "z_score (score_row_pd (c, stats_for_pd df c)) =
           Some (if 2 \<le> length (group_amounts df c) \<and> 0 < sample_stddev (group_amounts df c)
                 then (a - mean (group_amounts df c)) / sample_stddev (group_amounts df c)
                 else 0)"
    and "is_statistical_outlier (score_row_pd (c, stats_for_pd df c)) =
           (3 < \<bar>if 2 \<le> length (group_amounts df c) \<and> 0 < sample_stddev (group_amounts df c)
                 then (a - mean (group_amounts df c)) / sample_stddev (group_amounts df c)
                 else 0\<bar>)"
    and "row_claim (score_row_pd (c, stats_for_pd df c)) = c"
    and "stddev_amount (score_row_pd (c, stats_for_pd df c)) =
           (if 2 \<le> length (group_amounts df c) then Some (sample_stddev (group_amounts df c))
            else None)"
    and "avg_amount (score_row_pd (c, stats_for_pd df c)) = Some (mean (group_amounts df c))"
proof -
  have ne: "group_amounts df c \<noteq> []"
    using group_amounts_member [OF assms(1,3)] by auto
  have avg: "Option.bind (stats_for_pd df c) stats_avg_amount = Some (mean (group_amounts df c))"
    using ne
    by (simp add: stats_for_pd_def assms(2) agg_group_pd_def sql_avg_def group_amounts_def Let_def)
  have sd: "Option.bind (stats_for_pd df c) stats_stddev_amount =
      (if 2 \<le> length (group_amounts df c) then Some (sample_stddev (group_amounts df c)) else None)"
    by (simp add: stats_for_pd_def assms(2) agg_group_pd_def sql_stddev_def group_amounts_def
        Let_def not_less)
  show "z_score (score_row_pd (c, stats_for_pd df c)) =
           Some (if 2 \<le> length (group_amounts df c) \<and> 0 < sample_stddev (group_amounts df c)
                 then (a - mean (group_amounts df c)) / sample_stddev (group_amounts df c)
                 else 0)"
    by (simp add: score_row_pd_def Let_def avg sd assms(3) pd_gt_def pd_divide_def sql_binop_def sql_minus_def)
  show "is_statistical_outlier (score_row_pd (c, stats_for_pd df c)) =
           (3 < \<bar>if 2 \<le> length (group_amounts df c) \<and> 0 < sample_stddev (group_amounts df c)
                 then (a - mean (group_amounts df c)) / sample_stddev (group_amounts df c)
                 else 0\<bar>)"
    by (simp add: score_row_pd_def Let_def avg sd assms(3) pd_gt_def pd_divide_def sql_binop_def sql_minus_def
        sql_abs_def)
  show "row_claim (score_row_pd (c, stats_for_pd df c)) = c"
    by (simp add: score_row_pd_def Let_def)
  show "stddev_amount (score_row_pd (c, stats_for_pd df c)) =
           (if 2 \<le> length (group_amounts df c) then Some (sample_stddev (group_amounts df c))
            else None)"
    by (simp add: score_row_pd_def Let_def sd)
  show "avg_amount (score_row_pd (c, stats_for_pd df c)) = Some (mean (group_amounts df c))"
    by (simp add: score_row_pd_def Let_def avg)
qed

lemma claims_with_outliers_row:
  assumes "r \<in> set (claims_with_outliers d df)"
  obtains c k a where "c \<in> set (fst (validate_data_quality d df))"
    and "r = score_row (c, stats_for (fst (validate_data_quality d df)) c)"
    and "cpt_code c = Some k" and "claim_amount c = Some a"
proof -
  from assms obtain c where c: "c \<in> set (fst (validate_data_quality d df))"
    and r: "r = score_row (c, stats_for (fst (validate_data_quality d df)) c)"
    by (auto simp: claims_with_outliers_def detect_eq)
  from c have "dq_issues d c = []"
    by (simp add: clean_df_eq)
  from null_block_empty [OF this] obtain k a where "cpt_code c = Some k" "claim_amount c = Some a"
    by auto
  with c r that show ?thesis by blast
qed

lemma clean_with_outliers_row:
  assumes "r \<in> set (clean_with_outliers d df)"
  obtains c k a where "c \<in> set (fst (validate_data_quality_pd d df))"
    and "r = score_row_pd (c, stats_for_pd (fst (validate_data_quality_pd d df)) c)"
    and "cpt_code c = Some k" and "claim_amount c = Some a"
proof -
  from assms obtain c where c: "c \<in> set (fst (validate_data_quality_pd d df))"
    and r: "r = score_row_pd (c, stats_for_pd (fst (validate_data_quality_pd d df)) c)"
    by (auto simp: clean_with_outliers_def detect_pd_eq)
  from c have "dq_issues_pd d c = []"
    by (simp add: clean_df_pd_eq)
  from null_rules_empty_pd [OF this] obtain k a where "cpt_code c = Some k" "claim_amount c = Some a"
    by auto
  with c r that show ?thesis by blast
qed



lemma claim_with_amount_clean:
  assumes "0 \<le> a" and "a \<le> 100000"
  shows "dq_issues 20000 (claim_with_amount cid a) = []"
    and "dq_issues_pd 20000 (claim_with_amount cid a) = []"
  using assms
  by (simp_all add: claim_with_amount_def valid_claim_def dq_issues_def null_checks_def
      npi_check_def amount_checks_def date_checks_def status_check_def gender_check_def
      zip_check_def npi_valid_def sql_defs rule_consts regex_defs
      dq_issues_pd_def loc_append_def pd_defs)






section \<open>The zero-variance guard\<close>

lemma all_equal_stats:
  assumes "\<forall>x\<in>set xs. x = a" and "xs \<noteq> []"
  shows "mean xs = a" and "sample_stddev xs = 0"
proof -
  have xs: "xs = replicate (length xs) a"
    using assms(1) by (simp add: replicate_length_same)
  have n: "length xs \<noteq> 0" using assms(2) by simp
  have "sum_list xs = real (length xs) * a"
    by (subst xs) (simp add: sum_list_replicate)
  then show m: "mean xs = a"
    using n by (simp add: mean_def)
  have "map (\<lambda>x. (x - a)\<^sup>2) xs = replicate (length xs) 0"
    using assms(1) by (simp add: map_replicate_const [symmetric] cong: map_cong)
  then have "sum_list (map (\<lambda>x. (x - mean xs)\<^sup>2) xs) = 0"
    by (simp add: m sum_list_replicate)
  then show "sample_stddev xs = 0"
    by (simp add: sample_stddev_def)
qed

lemma non_null_all_equal:
  "\<forall>v\<in>set vs. v = Some a \<Longrightarrow> \<forall>x\<in>set (non_null vs). x = a"
  by (induction vs rule: non_null.induct) auto

lemma group_amounts_all_equal:
  assumes "\<forall>c'\<in>set df. cpt_code c' = cpt_code c \<longrightarrow> claim_amount c' = Some a"
  shows "\<forall>x\<in>set (group_amounts df c). x = a"
  unfolding group_amounts_def
  by (rule non_null_all_equal) (use assms in \<open>auto simp: group_rows_def\<close>)

text \<open>
  Claim C5. For a scored rule-clean row all of whose group members have the same amount
  (a group of one included), the standard deviation is absent or 0, the guarded branch
  assigns the z-score 0 without dividing, the row is not flagged and it is not in the
  QUARANTINE output. Stated for the Glue job and for the pandas reference.
\<close>

theorem zero_variance_guard:
  "(r \<in> set (claims_with_outliers d df) \<and>
    (\<forall>c\<in>set (fst (validate_data_quality d df)).
        cpt_code c = cpt_code (row_claim r) \<longrightarrow> claim_amount c = claim_amount (row_claim r)) \<longrightarrow>
      (stddev_amount r = None \<or> stddev_amount r = Some 0) \<and>
      z_score r = Some 0 \<and> is_statistical_outlier r = Some False \<and>
      r \<notin> set (quarantine_claims d df)) \<and>
   (p \<in> set (clean_with_outliers d df) \<and>
    (\<forall>c\<in>set (fst (validate_data_quality_pd d df)).
        cpt_code c = cpt_code (row_claim p) \<longrightarrow> claim_amount c = claim_amount (row_claim p)) \<longrightarrow>
      (stddev_amount p = None \<or> stddev_amount p = Some 0) \<and>
      z_score p = Some 0 \<and> is_statistical_outlier p = False)"
proof (rule conjI; rule impI)
  let ?clean = "fst (validate_data_quality d df)"
  assume h: "r \<in> set (claims_with_outliers d df) \<and>
    (\<forall>c\<in>set ?clean. cpt_code c = cpt_code (row_claim r) \<longrightarrow>
        claim_amount c = claim_amount (row_claim r))"
  then obtain c k a where c: "c \<in> set ?clean" and r: "r = score_row (c, stats_for ?clean c)"
    and k: "cpt_code c = Some k" and a: "claim_amount c = Some a"
    by (auto elim: claims_with_outliers_row)
  note row = score_row_clean [OF c k a]
  have rc: "row_claim r = c" by (simp add: r row)
  have eq: "\<forall>x\<in>set (group_amounts ?clean c). x = a"
    by (rule group_amounts_all_equal) (use h rc a in auto)
  have ne: "group_amounts ?clean c \<noteq> []"
    using group_amounts_member [OF c a] by auto
  have sd0: "sample_stddev (group_amounts ?clean c) = 0"
    by (rule all_equal_stats [OF eq ne])
  show "(stddev_amount r = None \<or> stddev_amount r = Some 0) \<and>
      z_score r = Some 0 \<and> is_statistical_outlier r = Some False \<and>
      r \<notin> set (quarantine_claims d df)"
    by (simp add: r row sd0 quarantine_claims_def statistical_outliers_def)
next
  let ?clean = "fst (validate_data_quality_pd d df)"
  assume h: "p \<in> set (clean_with_outliers d df) \<and>
    (\<forall>c\<in>set ?clean. cpt_code c = cpt_code (row_claim p) \<longrightarrow>
        claim_amount c = claim_amount (row_claim p))"
  then obtain c k a where c: "c \<in> set ?clean" and r: "p = score_row_pd (c, stats_for_pd ?clean c)"
    and k: "cpt_code c = Some k" and a: "claim_amount c = Some a"
    by (auto elim: clean_with_outliers_row)
  note row = score_row_pd_clean [OF c k a]
  have rc: "row_claim p = c" by (simp add: r row)
  have eq: "\<forall>x\<in>set (group_amounts ?clean c). x = a"
    by (rule group_amounts_all_equal) (use h rc a in auto)
  have ne: "group_amounts ?clean c \<noteq> []"
    using group_amounts_member [OF c a] by auto
  have sd0: "sample_stddev (group_amounts ?clean c) = 0"
    by (rule all_equal_stats [OF eq ne])
  show "(stddev_amount p = None \<or> stddev_amount p = Some 0) \<and>
      z_score p = Some 0 \<and> is_statistical_outlier p = False"
    by (simp add: r row sd0)
qed

lemma batch_same_clean:
  "fst (validate_data_quality 20000 batch_same) = batch_same"
  "fst (validate_data_quality_pd 20000 batch_same) = batch_same"
  by (simp_all add: clean_df_eq clean_df_pd_eq batch_same_def claim_with_amount_clean)

theorem zero_variance_guard_witness:
  "hd (claims_with_outliers 20000 batch_same) \<in> set (claims_with_outliers 20000 batch_same) \<and>
   map cpt_code (fst (validate_data_quality 20000 batch_same)) = [Some ''99213'', Some ''99213''] \<and>
   map claim_amount (fst (validate_data_quality 20000 batch_same)) = [Some 300, Some 300] \<and>
   z_score (hd (claims_with_outliers 20000 batch_same)) = Some 0 \<and>
   is_statistical_outlier (hd (claims_with_outliers 20000 batch_same)) = Some False \<and>
   hd (clean_with_outliers 20000 batch_same) \<in> set (clean_with_outliers 20000 batch_same) \<and>
   map cpt_code (fst (validate_data_quality_pd 20000 batch_same)) = [Some ''99213'', Some ''99213''] \<and>
   map claim_amount (fst (validate_data_quality_pd 20000 batch_same)) = [Some 300, Some 300] \<and>
   z_score (hd (clean_with_outliers 20000 batch_same)) = Some 0 \<and>
   is_statistical_outlier (hd (clean_with_outliers 20000 batch_same)) = False"
proof -
  let ?c = "claim_with_amount ''CLM-0001'' 300"
  let ?r = "hd (claims_with_outliers 20000 batch_same)"
  let ?p = "hd (clean_with_outliers 20000 batch_same)"
  have rin: "?r \<in> set (claims_with_outliers 20000 batch_same)"
    by (rule hd_in_set, simp add: claims_with_outliers_def batch_same_clean detect_eq)
       (simp add: batch_same_def)
  have pin: "?p \<in> set (clean_with_outliers 20000 batch_same)"
    by (rule hd_in_set, simp add: clean_with_outliers_def batch_same_clean detect_pd_eq)
       (simp add: batch_same_def)
  have rc: "row_claim ?r = ?c"
    by (simp add: claims_with_outliers_def batch_same_clean detect_eq)
       (simp add: batch_same_def score_row_def Let_def)
  have pc: "row_claim ?p = ?c"
    by (simp add: clean_with_outliers_def batch_same_clean detect_pd_eq)
       (simp add: batch_same_def score_row_pd_def Let_def)
  have same: "\<forall>c\<in>set batch_same. cpt_code c = cpt_code ?c \<longrightarrow> claim_amount c = claim_amount ?c"
    by (simp add: batch_same_def claim_with_amount_def)
  have cols: "map cpt_code batch_same = [Some ''99213'', Some ''99213'']"
    "map claim_amount batch_same = [Some 300, Some 300]"
    by (simp_all add: batch_same_def claim_with_amount_def valid_claim_def)
  from zero_variance_guard [of ?r 20000 batch_same ?p] rin pin same
  show ?thesis
    by (simp add: rc pc batch_same_clean cols)
qed

section \<open>The three tiers\<close>

lemma row_claim_score_row: "row_claim (score_row (c, st)) = c"
  by (simp add: score_row_def Let_def)

lemma map_row_claim_detect: "map row_claim (detect_statistical_anomalies df) = df"
  by (simp add: detect_eq o_def row_claim_score_row)

lemma outlier_flag_defined:
  assumes "r \<in> set (claims_with_outliers d df)"
  shows "(sql_not (is_statistical_outlier r) = Some True) = (is_statistical_outlier r \<noteq> Some True)"
proof -
  from assms obtain c k a where c: "c \<in> set (fst (validate_data_quality d df))"
    and r: "r = score_row (c, stats_for (fst (validate_data_quality d df)) c)"
    and k: "cpt_code c = Some k" and a: "claim_amount c = Some a"
    by (auto elim: claims_with_outliers_row)
  show ?thesis
    by (simp add: r score_row_clean(2) [OF c k a])
qed

lemma gold_claims_eq:
  "gold_claims d df =
     map row_claim (filter (\<lambda>r. is_statistical_outlier r \<noteq> Some True) (claims_with_outliers d df))"
  unfolding gold_claims_def
  by (rule arg_cong [where f = "map row_claim"], rule filter_cong) (simp_all add: outlier_flag_defined)

lemma gold_quarantine_clean:
  "mset (gold_claims d df) + mset (map row_claim (quarantine_claims d df)) =
     mset (fst (validate_data_quality d df))"
proof -
  let ?cwo = "claims_with_outliers d df"
  let ?P = "\<lambda>r. is_statistical_outlier r = Some True"
  have part: "filter_mset (\<lambda>r. \<not> ?P r) (mset ?cwo) + filter_mset ?P (mset ?cwo) = mset ?cwo"
    using multiset_partition [of "mset ?cwo" ?P] by (simp add: add.commute)
  have "mset (gold_claims d df) + mset (map row_claim (quarantine_claims d df)) =
        image_mset row_claim (filter_mset (\<lambda>r. \<not> ?P r) (mset ?cwo)) +
        image_mset row_claim (filter_mset ?P (mset ?cwo))"
    by (simp add: gold_claims_eq quarantine_claims_def statistical_outliers_def)
  also have "\<dots> =
        image_mset row_claim (filter_mset (\<lambda>r. \<not> ?P r) (mset ?cwo) + filter_mset ?P (mset ?cwo))"
    by (simp only: image_mset_union)
  also have "\<dots> = image_mset row_claim (mset ?cwo)"
    by (simp only: part)
  also have "\<dots> = mset (map row_claim ?cwo)"
    by simp
  also have "\<dots> = mset (fst (validate_data_quality d df))"
    by (simp add: claims_with_outliers_def map_row_claim_detect)
  finally show ?thesis .
qed

lemma clean_silver_batch:
  "mset (fst (validate_data_quality d df)) + mset (map fst (silver_claims d df)) = mset df"
  by (simp add: clean_df_eq silver_claims_def dq_failures_df_eq o_def)

lemma gold_subset_clean: "set (gold_claims d df) \<subseteq> set (fst (validate_data_quality d df))"
  using gold_quarantine_clean [of d df]
  by (metis mset_subset_eq_add_left set_mset_mono set_mset_mset)

lemma quarantine_subset_clean:
  "row_claim ` set (quarantine_claims d df) \<subseteq> set (fst (validate_data_quality d df))"
proof -
  have "set_mset (mset (map row_claim (quarantine_claims d df)))
        \<subseteq> set_mset (mset (fst (validate_data_quality d df)))"
    using gold_quarantine_clean [of d df]
    by (metis mset_subset_eq_add_right set_mset_mono)
  then show ?thesis by simp
qed

lemma silver_not_clean:
  "fst ` set (silver_claims d df) \<inter> set (fst (validate_data_quality d df)) = {}"
  by (auto simp: silver_claims_def dq_failures_df_eq clean_df_eq)

lemma gold_not_quarantine:
  "set (gold_claims d df) \<inter> row_claim ` set (quarantine_claims d df) = {}"
proof -
  have rows: "\<And>r. r \<in> set (claims_with_outliers d df) \<Longrightarrow>
      r = score_row (row_claim r, stats_for (fst (validate_data_quality d df)) (row_claim r))"
    by (auto simp: claims_with_outliers_def detect_eq row_claim_score_row)
  {
    fix c
    assume "c \<in> set (gold_claims d df)" and "c \<in> row_claim ` set (quarantine_claims d df)"
    then obtain r q where r: "r \<in> set (claims_with_outliers d df)" "row_claim r = c"
        "is_statistical_outlier r \<noteq> Some True"
      and q: "q \<in> set (claims_with_outliers d df)" "row_claim q = c"
        "is_statistical_outlier q = Some True"
      by (auto simp: gold_claims_eq quarantine_claims_def statistical_outliers_def)
    from rows [OF r(1)] rows [OF q(1)] r(2) q(2) have "r = q" by simp
    with r(3) q(3) have False by simp
  }
  then show ?thesis by blast
qed

lemma tier_lengths:
  "length (gold_claims d df) + length (quarantine_claims d df) =
     length (fst (validate_data_quality d df))"
  "length (fst (validate_data_quality d df)) + length (silver_claims d df) = length df"
proof -
  show "length (gold_claims d df) + length (quarantine_claims d df) =
     length (fst (validate_data_quality d df))"
    using arg_cong [OF gold_quarantine_clean [of d df], of size] by simp
  show "length (fst (validate_data_quality d df)) + length (silver_claims d df) = length df"
    using arg_cong [OF clean_silver_batch [of d df], of size] by simp
qed

lemma calculate_dq_metrics_Inr:
  "calculate_dq_metrics raw clean failed out =
     Inr \<lparr>total_records = raw, gold_records = clean - out, silver_records = failed,
          quarantine_records = out, total_anomalies = failed + out,
          data_quality_score =
            (if 0 < raw then 100 * real_of_int (clean - out) / real_of_int raw else 0),
          anomaly_rate =
            (if 0 < raw then 100 * real_of_int (failed + out) / real_of_int raw else 0)\<rparr>"
  by (simp add: calculate_dq_metrics_def Let_def truediv_def)

lemma dq_metrics_Inr:
  "dq_metrics d df =
     Inr \<lparr>total_records = int (length df),
          gold_records = int (length (gold_claims d df)),
          silver_records = int (length (silver_claims d df)),
          quarantine_records = int (length (quarantine_claims d df)),
          total_anomalies =
            int (length (silver_claims d df)) + int (length (quarantine_claims d df)),
          data_quality_score =
            (if df = [] then 0
             else 100 * real (length (gold_claims d df)) / real (length df)),
          anomaly_rate =
            (if df = [] then 0
             else 100 * real (length (silver_claims d df) + length (quarantine_claims d df))
                    / real (length df))\<rparr>"
proof -
  have g: "int (length (fst (validate_data_quality d df))) -
      int (length (statistical_outliers d df)) = int (length (gold_claims d df))"
    using tier_lengths(1) [of d df] by (simp add: quarantine_claims_def)
  show ?thesis
    unfolding dq_metrics_def Let_def calculate_dq_metrics_Inr g
    by (simp add: silver_claims_def quarantine_claims_def)
qed

text \<open>
  Claim C2. For every batch the claims of the GOLD output, of the SILVER output and of
  the QUARANTINE output together are the input batch as a multiset, so every input
  record is in exactly one of them; no claim is in two outputs; the three lengths add up
  to the length of the input; and the four counts of the metrics are those lengths, so
  the gold, silver and quarantine counts add up to the total.
\<close>

theorem tiers_partition_batch:
  "mset (gold_claims d df) + mset (map fst (silver_claims d df)) +
     mset (map row_claim (quarantine_claims d df)) = mset df \<and>
   set (gold_claims d df) \<inter> fst ` set (silver_claims d df) = {} \<and>
   set (gold_claims d df) \<inter> row_claim ` set (quarantine_claims d df) = {} \<and>
   fst ` set (silver_claims d df) \<inter> row_claim ` set (quarantine_claims d df) = {} \<and>
   length (gold_claims d df) + length (silver_claims d df) + length (quarantine_claims d df)
     = length df \<and>
   (case dq_metrics d df of
      Inl e \<Rightarrow> False
    | Inr m \<Rightarrow>
        total_records m = int (length df) \<and>
        gold_records m = int (length (gold_claims d df)) \<and>
        silver_records m = int (length (silver_claims d df)) \<and>
        quarantine_records m = int (length (quarantine_claims d df)) \<and>
        gold_records m + silver_records m + quarantine_records m = total_records m)"
proof -
  have "mset (gold_claims d df) + mset (map fst (silver_claims d df)) +
      mset (map row_claim (quarantine_claims d df)) =
      (mset (gold_claims d df) + mset (map row_claim (quarantine_claims d df))) +
      mset (map fst (silver_claims d df))"
    by (simp add: ac_simps)
  also have "\<dots> = mset (fst (validate_data_quality d df)) + mset (map fst (silver_claims d df))"
    by (simp only: gold_quarantine_clean)
  also have "\<dots> = mset df"
    by (rule clean_silver_batch)
  finally have m: "mset (gold_claims d df) + mset (map fst (silver_claims d df)) +
     mset (map row_claim (quarantine_claims d df)) = mset df" .
  have gs: "set (gold_claims d df) \<inter> fst ` set (silver_claims d df) = {}"
    using gold_subset_clean [of d df] silver_not_clean [of d df] by blast
  have sq: "fst ` set (silver_claims d df) \<inter> row_claim ` set (quarantine_claims d df) = {}"
    using quarantine_subset_clean [of d df] silver_not_clean [of d df] by blast
  have len: "length (gold_claims d df) + length (silver_claims d df) +
      length (quarantine_claims d df) = length df"
    using tier_lengths [of d df] by simp
  from len have "int (length (gold_claims d df)) + int (length (silver_claims d df)) +
      int (length (quarantine_claims d df)) = int (length df)"
    by linarith
  with m gs sq len gold_not_quarantine [of d df] show ?thesis
    by (simp add: dq_metrics_Inr)
qed

section \<open>The metrics\<close>

text \<open>
  Claim C6. \<^verbatim>\<open>calculate_dq_metrics\<close> raises no error, whatever the counts: it returns
  the counts it is given with the gold count \<open>clean - out\<close>, the total of anomalies as
  the sum of the silver and quarantine counts, and for a positive total the score
  100 * gold / total and the rate 100 * anomalies / total; for the total 0 both are 0.
  For a batch these are the numbers of rows of the three tiers, and the empty batch
  gives the snapshot with every count and both percentages 0. Percentages are exact
  reals.
\<close>

theorem metrics_formulas:
  "(case calculate_dq_metrics raw clean failed out of
      Inl e \<Rightarrow> False
    | Inr m \<Rightarrow>
        total_records m = raw \<and> gold_records m = clean - out \<and>
        silver_records m = failed \<and> quarantine_records m = out \<and>
        total_anomalies m = silver_records m + quarantine_records m \<and>
        (0 < raw \<longrightarrow>
           data_quality_score m =
             100 * real_of_int (gold_records m) / real_of_int (total_records m) \<and>
           anomaly_rate m =
             100 * real_of_int (total_anomalies m) / real_of_int (total_records m)) \<and>
        (raw = 0 \<longrightarrow> data_quality_score m = 0 \<and> anomaly_rate m = 0)) \<and>
   (case dq_metrics d df of
      Inl e \<Rightarrow> False
    | Inr m \<Rightarrow>
        total_anomalies m =
          int (length (silver_claims d df)) + int (length (quarantine_claims d df)) \<and>
        data_quality_score m =
          (if df = [] then 0 else 100 * real (length (gold_claims d df)) / real (length df)) \<and>
        anomaly_rate m =
          (if df = [] then 0
           else 100 * real (length (silver_claims d df) + length (quarantine_claims d df))
                  / real (length df))) \<and>
   dq_metrics d [] =
     Inr \<lparr>total_records = 0, gold_records = 0, silver_records = 0, quarantine_records = 0,
          total_anomalies = 0, data_quality_score = 0, anomaly_rate = 0\<rparr>"
proof -
  have empty: "dq_metrics d [] =
     Inr \<lparr>total_records = 0, gold_records = 0, silver_records = 0, quarantine_records = 0,
          total_anomalies = 0, data_quality_score = 0, anomaly_rate = 0\<rparr>"
    by (simp add: dq_metrics_def calculate_dq_metrics_Inr Let_def validate_data_quality_def
        dq_df_def statistical_outliers_def claims_with_outliers_def
        detect_statistical_anomalies_def join_left_def)
  show ?thesis
    unfolding empty by (simp add: calculate_dq_metrics_Inr dq_metrics_Inr)
qed

theorem metrics_formulas_witness:
  "(0::int) < 4 \<and>
   calculate_dq_metrics 4 3 1 1 =
     Inr \<lparr>total_records = 4, gold_records = 2, silver_records = 1, quarantine_records = 1,
          total_anomalies = 2, data_quality_score = 50, anomaly_rate = 50\<rparr> \<and>
   calculate_dq_metrics 0 0 0 0 =
     Inr \<lparr>total_records = 0, gold_records = 0, silver_records = 0, quarantine_records = 0,
          total_anomalies = 0, data_quality_score = 0, anomaly_rate = 0\<rparr>"
proof -
  obtain m where m: "calculate_dq_metrics 4 3 1 1 = Inr m"
    using metrics_formulas [of 4 3 1 1 0 "[]"] by (cases "calculate_dq_metrics 4 3 1 1") auto
  obtain z where z: "calculate_dq_metrics 0 0 0 0 = Inr z"
    using metrics_formulas [of 0 0 0 0 0 "[]"] by (cases "calculate_dq_metrics 0 0 0 0") auto
  have "m = \<lparr>total_records = 4, gold_records = 2, silver_records = 1, quarantine_records = 1,
          total_anomalies = 2, data_quality_score = 50, anomaly_rate = 50\<rparr>"
    using metrics_formulas [of 4 3 1 1 0 "[]"] by (simp add: m)
  moreover have "z = \<lparr>total_records = 0, gold_records = 0, silver_records = 0,
          quarantine_records = 0, total_anomalies = 0, data_quality_score = 0,
          anomaly_rate = 0\<rparr>"
    using metrics_formulas [of 0 0 0 0 0 "[]"] by (simp add: z)
  ultimately show ?thesis
    by (simp add: m z)
qed

text \<open>The metrics function of the pandas reference has the same guard.\<close>

lemma calculate_dq_metrics_pd_Inr:
  "calculate_dq_metrics_pd raw clean anomalies =
     Inr \<lparr>raw_records = raw, clean_records = clean, anomaly_records = anomalies,
          data_quality_score_pd = (if 0 < raw then 100 * real_of_int clean / real_of_int raw else 0),
          anomaly_rate_pd =
            (if 0 < raw then 100 * real_of_int anomalies / real_of_int raw else 0)\<rparr>"
  by (simp add: calculate_dq_metrics_pd_def truediv_def)




section \<open>The statistical tier is relative to the group\<close>

text \<open>
  The record of amount 12 is quarantined among eleven records of amount 0 (its z-score
  is 11 / sqrt 12, above 3) and is gold when it is alone in its batch.
\<close>

lemma batch12_clean: "fst (validate_data_quality 20000 batch12) = batch12"
  by (simp add: clean_df_eq batch12_def claim_with_amount_clean)

lemma batch12_group:
  "group_amounts batch12 (claim_with_amount ''CLM-0012'' 12) = [0, 0, 0, 0, 0, 0, 0, 0, 0, 0, 0, 12]"
  by (simp add: group_amounts_def group_rows_def batch12_def claim_with_amount_def)

lemma batch12_stats:
  "mean [0, 0, 0, 0, 0, 0, 0, 0, 0, 0, 0, 12] = 1"
  "sample_stddev [0, 0, 0, 0, 0, 0, 0, 0, 0, 0, 0, 12] = sqrt 12"
proof -
  show m: "mean [0, 0, 0, 0, 0, 0, 0, 0, 0, 0, 0, 12] = 1"
    by (simp add: mean_def)
  show "sample_stddev [0, 0, 0, 0, 0, 0, 0, 0, 0, 0, 0, 12] = sqrt 12"
    unfolding sample_stddev_def m by simp
qed

lemma sqrt12: "0 < sqrt 12" "3 < 11 / sqrt 12"
proof -
  show p: "0 < sqrt 12" by simp
  have "sqrt 12 < sqrt ((11 / 3)\<^sup>2)"
    by (simp only: real_sqrt_less_iff) (simp add: power2_eq_square)
  then have "sqrt 12 < 11 / 3" by simp
  then have "3 * sqrt 12 < 11" by simp
  then show "3 < 11 / sqrt 12"
    using p by (simp add: less_divide_eq)
qed

lemma quarantine_is_group_relative:
  "claim_with_amount ''CLM-0012'' 12 \<in> row_claim ` set (quarantine_claims 20000 batch12) \<and>
   claim_with_amount ''CLM-0012'' 12 \<notin> set (gold_claims 20000 batch12) \<and>
   gold_claims 20000 [claim_with_amount ''CLM-0012'' 12] = [claim_with_amount ''CLM-0012'' 12] \<and>
   quarantine_claims 20000 [claim_with_amount ''CLM-0012'' 12] = []"
proof -
  let ?c = "claim_with_amount ''CLM-0012'' 12"
  let ?r = "score_row (?c, stats_for batch12 ?c)"
  have c: "?c \<in> set batch12" "cpt_code ?c = Some ''99213''" "claim_amount ?c = Some 12"
    by (simp_all add: batch12_def claim_with_amount_def valid_claim_def)
  have rin: "?r \<in> set (claims_with_outliers 20000 batch12)"
    using c(1) by (simp add: claims_with_outliers_def batch12_clean detect_eq)
  have out: "is_statistical_outlier ?r = Some True"
    using sqrt12 by (simp add: score_row_clean [OF c] batch12_group batch12_stats)
  have "?r \<in> set (quarantine_claims 20000 batch12)"
    using rin out by (simp add: quarantine_claims_def statistical_outliers_def)
  then have q: "?c \<in> row_claim ` set (quarantine_claims 20000 batch12)"
    by (metis image_eqI row_claim_score_row)
  have g: "?c \<notin> set (gold_claims 20000 batch12)"
    using q gold_not_quarantine [of 20000 batch12] by blast
  have one: "fst (validate_data_quality 20000 [?c]) = [?c]"
    by (simp add: clean_df_eq claim_with_amount_clean)
  have c1: "?c \<in> set [?c]" by simp
  have grp: "group_amounts [?c] ?c = [12]"
    by (simp add: group_amounts_def group_rows_def claim_with_amount_def)
  have flag: "is_statistical_outlier (score_row (?c, stats_for [?c] ?c)) = Some False"
    by (simp add: score_row_clean [OF c1 c(2,3)] grp)
  have "gold_claims 20000 [?c] = [?c]" "quarantine_claims 20000 [?c] = []"
    by (simp_all add: gold_claims_def quarantine_claims_def statistical_outliers_def
        claims_with_outliers_def one detect_eq flag row_claim_score_row)
  with q g show ?thesis by simp
qed

end
